theory Spec2Isabelle
  imports Complex_Main
begin

section \<open>Re potential trainer: data model\<close>

text \<open>
  The development follows \<^verbatim>\<open>resnap/core/train_potential.py\<close>. A numpy array of
  floating point numbers is a list (one axis) or a list of rows (two axes) of reals, so
  rounding is not part of the model; where IEEE arithmetic would give a NaN (a division
  of zero by zero, the average of no values) the theorems say so by a hypothesis.
  Exceptions are values of the type \<open>error\<close>, and a routine that may raise returns
  \<open>error + 'a\<close>.
\<close>

type_synonym vec = "real list"
type_synonym matrix = "real list list"

datatype error =
    KeyError            \<comment> \<open>a dictionary has no such key\<close>
  | IndexError          \<comment> \<open>an index is outside its axis\<close>
  | NotCallable         \<comment> \<open>TypeError: 'NoneType' object is not callable\<close>
  | NoLength            \<comment> \<open>TypeError: a number has no len()\<close>
  | EmptySequence       \<comment> \<open>ValueError: max() or min() of an empty sequence\<close>
  | Broadcast           \<comment> \<open>ValueError: operands could not be broadcast together\<close>
  | Dimensions          \<comment> \<open>ValueError: concatenated arrays differ off the joined axis\<close>
  | OSError             \<comment> \<open>a file could not be opened for writing\<close>
  | AttributeError      \<comment> \<open>an attribute that was never set is read\<close>
  | External string     \<comment> \<open>raised inside a library routine\<close>

subsection \<open>Python and numpy primitives\<close>

definition py_range :: "nat \<Rightarrow> nat list" where
  "py_range n = [0..<n]"

text \<open>\<^verbatim>\<open>xs[i::k]\<close>: the entries at positions \<open>i, i + k, i + 2 k, ...\<close>.\<close>

definition py_slice_step :: "'a list \<Rightarrow> nat \<Rightarrow> nat \<Rightarrow> 'a list" where
  "py_slice_step xs i k = map (nth xs) (filter (\<lambda>j. (j - i) mod k = 0) [i..<length xs])"

text \<open>\<^verbatim>\<open>xs[i]\<close> for a non-negative index.\<close>

definition py_index :: "'a list \<Rightarrow> nat \<Rightarrow> error + 'a" where
  "py_index xs i = (if i < length xs then Inr (xs ! i) else Inl IndexError)"

text \<open>\<^verbatim>\<open>a[ids]\<close>: indexing the first axis with a list of non-negative indices.\<close>

definition np_take :: "'a list \<Rightarrow> nat list \<Rightarrow> error + 'a list" where
  "np_take xs ids =
     (if list_all (\<lambda>i. i < length xs) ids then Inr (map (nth xs) ids) else Inl IndexError)"

text \<open>
  \<^verbatim>\<open>a[:, k]\<close> and \<^verbatim>\<open>a[:, k:]\<close> on an array with two axes. A column that a row does
  not have is an \<^verbatim>\<open>IndexError\<close>; an array without rows is taken to have the column.
\<close>

definition np_col :: "matrix \<Rightarrow> nat \<Rightarrow> error + vec" where
  "np_col a k =
     (if list_all (\<lambda>r. k < length r) a then Inr (map (\<lambda>r. r ! k) a) else Inl IndexError)"

definition np_cols_from :: "matrix \<Rightarrow> nat \<Rightarrow> matrix" where
  "np_cols_from a k = map (drop k) a"

text \<open>
  Broadcasting along one axis: an axis of the wanted length is kept, an axis of length
  one is repeated, anything else is refused.
\<close>

definition broadcast_to :: "nat \<Rightarrow> 'a list \<Rightarrow> error + 'a list" where
  "broadcast_to n xs =
     (if length xs = n then Inr xs
      else if length xs = 1 then Inr (replicate n (hd xs))
      else Inl Broadcast)"

text \<open>An elementwise operation on two arrays with one axis (\<^verbatim>\<open>a - b\<close>, \<^verbatim>\<open>a / b\<close>).\<close>

definition np_binop :: "(real \<Rightarrow> real \<Rightarrow> real) \<Rightarrow> vec \<Rightarrow> vec \<Rightarrow> error + vec" where
  "np_binop op a b =
     (case broadcast_to (if length a = 1 then length b else length a) a of
        Inl e \<Rightarrow> Inl e
      | Inr a' \<Rightarrow>
          (case broadcast_to (length a') b of
             Inl e \<Rightarrow> Inl e
           | Inr b' \<Rightarrow> Inr (map2 op a' b')))"

definition np_absolute :: "vec \<Rightarrow> vec" where
  "np_absolute a = map abs a"

text \<open>\<^verbatim>\<open>np.average\<close> and \<^verbatim>\<open>np.mean\<close> of one axis: the sum over the count.\<close>

definition np_average :: "vec \<Rightarrow> real" where
  "np_average a = sum_list a / real (length a)"

definition np_mean :: "vec \<Rightarrow> real" where
  "np_mean a = sum_list a / real (length a)"

text \<open>The builtins \<^verbatim>\<open>max\<close> and \<^verbatim>\<open>min\<close> raise on an empty sequence.\<close>

definition py_max :: "vec \<Rightarrow> error + real" where
  "py_max xs = (case xs of [] \<Rightarrow> Inl EmptySequence | x # ys \<Rightarrow> Inr (foldl max x ys))"

definition py_min :: "vec \<Rightarrow> error + real" where
  "py_min xs = (case xs of [] \<Rightarrow> Inl EmptySequence | x # ys \<Rightarrow> Inr (foldl min x ys))"

text \<open>\<^verbatim>\<open>os.path.join(a, b)\<close> on a POSIX system.\<close>

definition os_path_join :: "string \<Rightarrow> string \<Rightarrow> string" where
  "os_path_join a b =
     (if b \<noteq> [] \<and> hd b = CHR ''/'' then b
      else if a = [] \<or> last a = CHR ''/'' then a @ b
      else a @ ''/'' @ b)"

text \<open>The truth value of an optional string: \<^verbatim>\<open>None\<close> and the empty string are false.\<close>

definition truthy :: "string option \<Rightarrow> bool" where
  "truthy s = (case s of None \<Rightarrow> False | Some t \<Rightarrow> t \<noteq> [])"

text \<open>
  The attribute \<^verbatim>\<open>coef_\<close> of a fitted model is an array with one axis (one
  coefficient per feature) or with two (one row of coefficients per target), so its
  entry \<^verbatim>\<open>coef_[0]\<close> is a number or a row. A number divided by an array with one axis
  is broadcast over it; a number has no \<^verbatim>\<open>len\<close> and cannot be indexed.
\<close>

datatype coef = Coef_1d vec | Coef_2d matrix

datatype item = Number real | Row vec

definition first_entry :: "coef \<Rightarrow> error + item" where
  "first_entry c =
     (case c of
        Coef_1d v \<Rightarrow> (case py_index v 0 of Inl e \<Rightarrow> Inl e | Inr a \<Rightarrow> Inr (Number a))
      | Coef_2d m \<Rightarrow> (case py_index m 0 of Inl e \<Rightarrow> Inl e | Inr r \<Rightarrow> Inr (Row r)))"

definition np_divide :: "item \<Rightarrow> vec \<Rightarrow> error + item" where
  "np_divide p s =
     (case p of
        Number a \<Rightarrow> Inr (Row (map (\<lambda>d. a / d) s))
      | Row v \<Rightarrow> (case np_binop (/) v s of Inl e \<Rightarrow> Inl e | Inr q \<Rightarrow> Inr (Row q)))"

definition py_len :: "item \<Rightarrow> error + nat" where
  "py_len p = (case p of Number a \<Rightarrow> Inl NoLength | Row v \<Rightarrow> Inr (length v))"

definition item_index :: "item \<Rightarrow> nat \<Rightarrow> error + real" where
  "item_index p i = (case p of Number a \<Rightarrow> Inl IndexError | Row v \<Rightarrow> py_index v i)"

text \<open>\<^verbatim>\<open>d[k]\<close> on a dictionary.\<close>

definition py_getitem :: "('k \<Rightarrow> 'v option) \<Rightarrow> 'k \<Rightarrow> error + 'v" where
  "py_getitem d k = (case d k of None \<Rightarrow> Inl KeyError | Some v \<Rightarrow> Inr v)"

subsection \<open>The fold assignment of \<^verbatim>\<open>cross_validation\<close>\<close>

text \<open>
  Lines 156 to 158, for a working table of \<open>n\<close> rows and the fold \<open>i\<close>:
  \<^verbatim>\<open>
  all_id = list(range(len(data)))
  validation_id = all_id[i::5]
  train_id = [i for i in all_id if i not in validation_id]
  \<close>
\<close>

definition all_id :: "nat \<Rightarrow> nat list" where
  "all_id n = py_range n"

definition validation_id :: "nat \<Rightarrow> nat \<Rightarrow> nat list" where
  "validation_id n i = py_slice_step (all_id n) i 5"

definition train_id :: "nat \<Rightarrow> nat \<Rightarrow> nat list" where
  "train_id n i = filter (\<lambda>j. j \<notin> set (validation_id n i)) (all_id n)"

section \<open>Libraries, the trainer and the world\<close>

text \<open>
  scikit-learn, scipy, the random generator of numpy and the printing of a float are
  not code of this repository: they are the fields of a \<open>library\<close>, and every theorem
  holds for any library, under the hypotheses on its answers that the theorem states.
  A fitted model has the type \<open>'m\<close>, a state of the random generator the type \<open>'g\<close>.
  \<^item> \<open>sk_fit_vec kind alpha max_iter tol fit_intercept X y\<close> is
    \<^verbatim>\<open>MODELS[kind](alpha=, max_iter=, tol=, fit_intercept=).fit(X, y)\<close> for a target
    with one axis, \<open>sk_fit_mat\<close> the same for a target with two axes;
  \<^item> \<open>sk_predict\<close> is \<^verbatim>\<open>model.predict(X)\<close> and \<open>sk_coef\<close> is \<^verbatim>\<open>model.coef_\<close>,
    with one axis or with two: which of them a solver gives for a target of one column
    depends on the solver and on the release of scikit-learn, and the theorems on
    \<open>make_potential\<close> state the shape they are about;
  \<^item> \<open>sk_normalize norm X\<close> is
    \<^verbatim>\<open>normalize(X, norm=norm, axis=0, copy=True, return_norm=True)\<close>;
  \<^item> \<open>io_loadmat\<close> is \<^verbatim>\<open>scipy.io.loadmat\<close>: the dictionary of the named arrays;
  \<^item> \<open>np_seed\<close> is the generator state after \<^verbatim>\<open>np.random.seed(seed)\<close>, and
    \<open>np_shuffle g a\<close> the rows of \<open>a\<close> as \<^verbatim>\<open>np.random.shuffle\<close> leaves them
    from the state \<open>g\<close>, with the next state;
  \<^item> \<open>py_str\<close> is \<^verbatim>\<open>str\<close> of a float.
  The solver, \<open>predict\<close>, the shuffle and the printer are functions: that such a call
  raises by itself is not modelled. The routines that refuse an argument the caller
  chooses (a norm, a file, a seed) answer an \<open>error\<close> or a result.
\<close>

datatype model_kind = Lasso | Ridge

definition MODELS :: "string \<Rightarrow> model_kind option" where
  "MODELS = [''LASSO'' \<mapsto> Lasso, ''RIDGE'' \<mapsto> Ridge]"

record ('m, 'g) library =
  sk_fit_vec :: "model_kind \<Rightarrow> real \<Rightarrow> real \<Rightarrow> real \<Rightarrow> bool \<Rightarrow> matrix \<Rightarrow> vec \<Rightarrow> 'm"
  sk_fit_mat :: "model_kind \<Rightarrow> real \<Rightarrow> real \<Rightarrow> real \<Rightarrow> bool \<Rightarrow> matrix \<Rightarrow> matrix \<Rightarrow> 'm"
  sk_predict :: "'m \<Rightarrow> matrix \<Rightarrow> vec"
  sk_coef :: "'m \<Rightarrow> coef"
  sk_normalize :: "string \<Rightarrow> matrix \<Rightarrow> error + matrix \<times> vec"
  io_loadmat :: "string \<Rightarrow> error + (string \<Rightarrow> matrix option)"
  np_seed :: "int \<Rightarrow> error + 'g"
  np_shuffle :: "'g \<Rightarrow> matrix \<Rightarrow> matrix \<times> 'g"
  py_str :: "real \<Rightarrow> string"

text \<open>
  The trainer object. Its three arrays are references into the store of arrays, since
  numpy arrays are shared and written in place; \<open>norms\<close> is set only when a norm was
  asked for.
\<close>

record trainer =
  data_dir :: string
  f :: "model_kind option"
  norm_kind :: "string option"
  norms :: "vec option"
  training_x :: nat
  training_y :: nat
  training_data :: nat

text \<open>A figure handed to matplotlib: which plotter, and its arguments.\<close>

datatype plot_call =
    Plot_y_yhat_atom vec vec
  | Plot_y_yhat vec vec
  | Plot_cross vec vec real real

text \<open>
  The world a call runs in: the arrays that exist (a reference is a position in the
  list, a new array is appended), the state of numpy's global random generator, the
  figures shown so far, the text files, and the paths that can be opened for writing.
  Printing to the terminal is left out. A reference held by a trainer is the position
  of an array that exists; the theorems that need it say so.
\<close>

record 'g world =
  arrays :: "matrix list"
  rng :: 'g
  plots :: "plot_call list"
  files :: "string \<Rightarrow> string option"
  writable :: "string \<Rightarrow> bool"

type_synonym ('a, 'g) prog = "'g world \<Rightarrow> (error + 'a) \<times> 'g world"

definition ok :: "'a \<Rightarrow> ('a, 'g) prog" where
  "ok v w = (Inr v, w)"

definition lift :: "error + 'a \<Rightarrow> ('a, 'g) prog" where
  "lift r w = (r, w)"

text \<open>Sequencing: an exception of the first part ends the run in the world it left.\<close>

definition andthen :: "('a, 'g) prog \<Rightarrow> ('a \<Rightarrow> ('b, 'g) prog) \<Rightarrow> ('b, 'g) prog" where
  "andthen p k w = (case p w of (Inl e, w') \<Rightarrow> (Inl e, w') | (Inr v, w') \<Rightarrow> k v w')"

text \<open>A \<^verbatim>\<open>for\<close> loop over a list, threading the variables the body updates.\<close>

fun for_each :: "'x list \<Rightarrow> 's \<Rightarrow> ('x \<Rightarrow> 's \<Rightarrow> ('s, 'g) prog) \<Rightarrow> ('s, 'g) prog" where
  "for_each [] s body = ok s"
| "for_each (x # xs) s body = andthen (body x s) (\<lambda>s'. for_each xs s' body)"

subsection \<open>Arrays in the store\<close>

definition array_at :: "nat \<Rightarrow> (matrix, 'g) prog" where
  "array_at a w = (Inr (arrays w ! a), w)"

definition np_new :: "matrix \<Rightarrow> (nat, 'g) prog" where
  "np_new v w = (Inr (length (arrays w)), w\<lparr>arrays := arrays w @ [v]\<rparr>)"

text \<open>\<^verbatim>\<open>a.copy()\<close>: a new array with the same entries.\<close>

definition np_copy :: "nat \<Rightarrow> (nat, 'g) prog" where
  "np_copy a w = np_new (arrays w ! a) w"

definition np_random_seed :: "('m, 'g) library \<Rightarrow> int \<Rightarrow> (unit, 'g) prog" where
  "np_random_seed lib seed w =
     (case np_seed lib seed of
        Inl e \<Rightarrow> (Inl e, w)
      | Inr g \<Rightarrow> (Inr (), w\<lparr>rng := g\<rparr>))"

text \<open>\<^verbatim>\<open>np.random.shuffle(a)\<close> reorders the rows of \<open>a\<close> in place.\<close>

definition np_random_shuffle :: "('m, 'g) library \<Rightarrow> nat \<Rightarrow> (unit, 'g) prog" where
  "np_random_shuffle lib a w =
     (case np_shuffle lib (rng w) (arrays w ! a) of
        (d, g) \<Rightarrow> (Inr (), w\<lparr>arrays := (arrays w)[a := d], rng := g\<rparr>))"

text \<open>
  \<^verbatim>\<open>a[:, k:] = v\<close>: the value is broadcast to the shape of the slice and written in
  place, the columns before \<open>k\<close> stay.
\<close>

fun assign_rows :: "nat \<Rightarrow> matrix \<Rightarrow> matrix \<Rightarrow> error + matrix" where
  "assign_rows k [] [] = Inr []"
| "assign_rows k (r # rs) (v # vs) =
     (case broadcast_to (length r - k) v of
        Inl e \<Rightarrow> Inl e
      | Inr v' \<Rightarrow>
          (case assign_rows k rs vs of
             Inl e \<Rightarrow> Inl e
           | Inr rest \<Rightarrow> Inr ((take k r @ v') # rest)))"
| "assign_rows k rs vs = Inl Broadcast"

definition np_assign_cols_from :: "nat \<Rightarrow> nat \<Rightarrow> matrix \<Rightarrow> (unit, 'g) prog" where
  "np_assign_cols_from a k v w =
     (case broadcast_to (length (arrays w ! a)) v of
        Inl e \<Rightarrow> (Inl e, w)
      | Inr v' \<Rightarrow>
          (case assign_rows k (arrays w ! a) v' of
             Inl e \<Rightarrow> (Inl e, w)
           | Inr rows \<Rightarrow> (Inr (), w\<lparr>arrays := (arrays w)[a := rows]\<rparr>)))"

text \<open>\<^verbatim>\<open>np.concatenate((a, b), axis=1)\<close>: a new array, row by row.\<close>

definition np_concatenate_axis1 :: "nat \<Rightarrow> nat \<Rightarrow> (nat, 'g) prog" where
  "np_concatenate_axis1 a b w =
     (if length (arrays w ! a) = length (arrays w ! b)
      then np_new (map2 (@) (arrays w ! a) (arrays w ! b)) w
      else (Inl Dimensions, w))"

subsection \<open>Figures and files\<close>

definition show_plot :: "plot_call \<Rightarrow> (unit, 'g) prog" where
  "show_plot c w = (Inr (), w\<lparr>plots := plots w @ [c]\<rparr>)"

text \<open>\<^verbatim>\<open>open(path, 'w')\<close> empties the file; \<^verbatim>\<open>write\<close> appends to it.\<close>

definition py_open_w :: "string \<Rightarrow> (unit, 'g) prog" where
  "py_open_w path w =
     (if writable w path then (Inr (), w\<lparr>files := (files w)(path \<mapsto> [])\<rparr>)
      else (Inl OSError, w))"

definition py_write :: "string \<Rightarrow> string \<Rightarrow> (unit, 'g) prog" where
  "py_write path chunk w =
     (case files w path of
        None \<Rightarrow> (Inl OSError, w)
      | Some old \<Rightarrow> (Inr (), w\<lparr>files := (files w)(path \<mapsto> old @ chunk)\<rparr>))"

section \<open>The trainer's methods\<close>

subsection \<open>\<^verbatim>\<open>__init__\<close>\<close>

text \<open>
  Lines 43 to 59. The loop that prints the two shapes reads \<^verbatim>\<open>data["X"]\<close> and
  \<^verbatim>\<open>data["y"]\<close>, so a missing array is a \<^verbatim>\<open>KeyError\<close> there. The array \<open>X\<close> is the
  one \<open>training_x\<close> refers to, the normalised columns are written into it, and
  \<open>training_data\<close> is a new array.
\<close>

definition init ::
  "('m, 'g) library \<Rightarrow> string \<Rightarrow> string \<Rightarrow> string option \<Rightarrow> (trainer, 'g) prog" where
  "init lib dir kind norm_arg =
     andthen (lift (io_loadmat lib dir)) (\<lambda>data.
     andthen (lift (py_getitem data ''X'')) (\<lambda>X.
     andthen (lift (py_getitem data ''y'')) (\<lambda>y.
     andthen (np_new X) (\<lambda>training_x.
     andthen
       (if truthy norm_arg then
          andthen (array_at training_x) (\<lambda>x.
          andthen (lift (sk_normalize lib (the norm_arg) (np_cols_from x 1))) (\<lambda>(features, norms).
          andthen (np_assign_cols_from training_x 1 features) (\<lambda>_.
          ok (Some norms))))
        else ok None) (\<lambda>norms.
     andthen (np_new y) (\<lambda>training_y.
     andthen (np_concatenate_axis1 training_y training_x) (\<lambda>training_data.
     ok \<lparr>data_dir = dir, f = MODELS kind, norm_kind = norm_arg, norms = norms,
         training_x = training_x, training_y = training_y,
         training_data = training_data\<rparr>)))))))"

subsection \<open>The plotters\<close>

text \<open>
  A plotter hands its arrays to matplotlib and returns nothing; \<^verbatim>\<open>plot_y_yhat\<close>
  multiplies both arrays by the atom counts first.
\<close>

definition plot_y_yhat_atom :: "vec \<Rightarrow> vec \<Rightarrow> (unit, 'g) prog" where
  "plot_y_yhat_atom y y_hat = show_plot (Plot_y_yhat_atom y y_hat)"

definition plot_y_yhat :: "vec \<Rightarrow> vec \<Rightarrow> vec \<Rightarrow> (unit, 'g) prog" where
  "plot_y_yhat y y_hat num_array =
     andthen (lift (np_binop (*) y num_array)) (\<lambda>y'.
     andthen (lift (np_binop (*) y_hat num_array)) (\<lambda>y_hat'.
     show_plot (Plot_y_yhat y' y_hat')))"

definition plot_cross :: "vec \<Rightarrow> vec \<Rightarrow> real \<Rightarrow> real \<Rightarrow> (unit, 'g) prog" where
  "plot_cross param err y_low y_up = show_plot (Plot_cross param err y_low y_up)"

subsection \<open>\<^verbatim>\<open>cross_validation\<close>\<close>

text \<open>Lines 144 to 146: the working table is a shuffled copy of the stored table.\<close>

definition shuffled_copy :: "('m, 'g) library \<Rightarrow> trainer \<Rightarrow> int \<Rightarrow> (nat, 'g) prog" where
  "shuffled_copy lib self seed =
     andthen (np_copy (training_data self)) (\<lambda>data.
     andthen (np_random_seed lib seed) (\<lambda>_.
     andthen (np_random_shuffle lib data) (\<lambda>_.
     ok data)))"

text \<open>
  Lines 156 to 186, the body of the loop over the folds: \<open>data\<close> is the working table,
  \<open>data_x\<close>, \<open>data_y\<close> and \<open>num_array\<close> are its slices (the local variables
  \<^verbatim>\<open>training_x\<close>, \<^verbatim>\<open>training_y\<close> and \<^verbatim>\<open>num_array\<close> of the method), and the two
  lists of errors are the variables the loop appends to.
\<close>

definition fold_step ::
  "('m, 'g) library \<Rightarrow> trainer \<Rightarrow> matrix \<Rightarrow> matrix \<Rightarrow> vec \<Rightarrow> vec \<Rightarrow> real \<Rightarrow> real \<Rightarrow> real \<Rightarrow>
   string option \<Rightarrow> nat \<Rightarrow> vec \<times> vec \<Rightarrow> (vec \<times> vec, 'g) prog" where
  "fold_step lib self data data_x data_y num_array alpha max_iter tol plot_image i acc =
     andthen (lift (np_take data_x (train_id (length data) i))) (\<lambda>train_x.
     andthen (lift (np_take data_y (train_id (length data) i))) (\<lambda>train_y.
     andthen (lift (np_take data_x (validation_id (length data) i))) (\<lambda>validation_x.
     andthen (lift (np_take data_y (validation_id (length data) i))) (\<lambda>validation_y.
     andthen (lift (np_take num_array (train_id (length data) i))) (\<lambda>num_array_train.
     andthen (lift (np_take num_array (validation_id (length data) i))) (\<lambda>num_array_val.
     andthen (lift (case f self of None \<Rightarrow> Inl NotCallable | Some kind \<Rightarrow> Inr kind)) (\<lambda>kind.
     andthen (ok (sk_fit_vec lib kind alpha max_iter tol False train_x train_y)) (\<lambda>model.
     andthen (ok (sk_predict lib model validation_x)) (\<lambda>predicted_validation.
     andthen (ok (sk_predict lib model train_x)) (\<lambda>predicted_train.
     andthen (lift (np_binop (-) validation_y predicted_validation)) (\<lambda>d_val.
     andthen (lift (np_binop (/) (np_absolute d_val) num_array_val)) (\<lambda>q_val.
     andthen (lift (np_binop (-) train_y predicted_train)) (\<lambda>d_train.
     andthen (lift (np_binop (/) (np_absolute d_train) num_array_train)) (\<lambda>q_train.
     andthen
       (if i = 0 \<and> plot_image = Some ''atom'' then
          andthen (lift (np_binop (/) train_y num_array_train)) (\<lambda>a.
          andthen (lift (np_binop (/) predicted_train num_array_train)) (\<lambda>b.
          andthen (plot_y_yhat_atom a b) (\<lambda>_.
          andthen (lift (np_binop (/) validation_y num_array_val)) (\<lambda>c.
          andthen (lift (np_binop (/) predicted_validation num_array_val)) (\<lambda>d.
          plot_y_yhat_atom c d)))))
        else ok ()) (\<lambda>_.
     andthen
       (if i = 0 \<and> plot_image = Some ''sample'' then
          andthen (lift (np_binop (/) train_y num_array_train)) (\<lambda>a.
          andthen (lift (np_binop (/) predicted_train num_array_train)) (\<lambda>b.
          andthen (plot_y_yhat a b num_array_train) (\<lambda>_.
          andthen (lift (np_binop (/) validation_y num_array_val)) (\<lambda>c.
          andthen (lift (np_binop (/) predicted_validation num_array_val)) (\<lambda>d.
          plot_y_yhat c d num_array_val)))))
        else ok ()) (\<lambda>_.
     ok (fst acc @ [np_average q_val], snd acc @ [np_average q_train])))))))))))))))))"

text \<open>Lines 152 to 191, the body of the loop over the alphas.\<close>

definition alpha_step ::
  "('m, 'g) library \<Rightarrow> trainer \<Rightarrow> matrix \<Rightarrow> matrix \<Rightarrow> vec \<Rightarrow> vec \<Rightarrow> real \<Rightarrow> real \<Rightarrow>
   string option \<Rightarrow> real \<Rightarrow> vec \<Rightarrow> (vec, 'g) prog" where
  "alpha_step lib self data data_x data_y num_array max_iter tol plot_image alpha
     alpha_errors =
     andthen
       (for_each (py_range 5) ([], [])
          (fold_step lib self data data_x data_y num_array alpha max_iter tol
             plot_image))
       (\<lambda>(errors_validation, errors_train).
          ok (alpha_errors @ [np_mean errors_validation]))"

text \<open>Lines 147 to 198: the sweep over the alphas on the working table \<open>data\<close>.\<close>

definition alpha_sweep ::
  "('m, 'g) library \<Rightarrow> trainer \<Rightarrow> matrix \<Rightarrow> vec \<Rightarrow> real \<Rightarrow> real \<Rightarrow> string option \<Rightarrow> (vec, 'g) prog"
  where
  "alpha_sweep lib self data alpha_range max_iter tol plot_image =
     andthen (ok (np_cols_from data 1)) (\<lambda>data_x.
     andthen (lift (np_col data 0)) (\<lambda>data_y.
     andthen (lift (np_col data 1)) (\<lambda>num_array.
     andthen
       (for_each alpha_range []
          (alpha_step lib self data data_x data_y num_array max_iter tol plot_image))
       (\<lambda>alpha_errors.
     andthen (lift (py_max alpha_errors)) (\<lambda>max_e.
     andthen (lift (py_min alpha_errors)) (\<lambda>min_e.
     andthen (plot_cross alpha_range alpha_errors
                (min_e - (max_e - min_e)) (max_e + (max_e - min_e))) (\<lambda>_.
     ok alpha_errors)))))))"

text \<open>Lines 144 to 198: the whole method.\<close>

definition cross_validation ::
  "('m, 'g) library \<Rightarrow> trainer \<Rightarrow> vec \<Rightarrow> real \<Rightarrow> real \<Rightarrow> string option \<Rightarrow> int \<Rightarrow> (vec, 'g) prog"
  where
  "cross_validation lib self alpha_range max_iter tol plot_image seed =
     andthen (shuffled_copy lib self seed) (\<lambda>data_ref.
     andthen (array_at data_ref) (\<lambda>data.
     alpha_sweep lib self data alpha_range max_iter tol plot_image))"

subsection \<open>\<^verbatim>\<open>make_potential\<close>\<close>

text \<open>Lines 231 to 238: the fit and the coefficients it yields.\<close>

definition fit_potential ::
  "('m, 'g) library \<Rightarrow> trainer \<Rightarrow> real \<Rightarrow> real \<Rightarrow> real \<Rightarrow> (item, 'g) prog" where
  "fit_potential lib self alpha max_iter tol =
     andthen (lift (case f self of None \<Rightarrow> Inl NotCallable | Some kind \<Rightarrow> Inr kind)) (\<lambda>kind.
     andthen (array_at (training_x self)) (\<lambda>x.
     andthen (array_at (training_y self)) (\<lambda>y.
     andthen (ok (sk_fit_mat lib kind alpha max_iter tol False x y)) (\<lambda>model.
     andthen (lift (first_entry (sk_coef lib model))) (\<lambda>potential.
     if truthy (norm_kind self) then
       andthen (lift (case norms self of None \<Rightarrow> Inl AttributeError | Some s \<Rightarrow> Inr s)) (\<lambda>s.
       lift (np_divide potential s))
     else ok potential)))))"

text \<open>
  Lines 239 to 242: one line per coefficient, into a file opened for writing. The file
  is opened, and so emptied, before \<^verbatim>\<open>len(potential)\<close> is taken.
\<close>

definition write_potential :: "('m, 'g) library \<Rightarrow> string \<Rightarrow> item \<Rightarrow> (unit, 'g) prog" where
  "write_potential lib output_dir potential =
     andthen (py_open_w (os_path_join output_dir ''re_potential'')) (\<lambda>_.
     andthen (lift (py_len potential)) (\<lambda>n.
     for_each (py_range n) ()
       (\<lambda>i _. andthen (lift (item_index potential i)) (\<lambda>c.
          py_write (os_path_join output_dir ''re_potential'') (py_str lib c @ [CHR 0x0A])))))"

definition make_potential ::
  "('m, 'g) library \<Rightarrow> trainer \<Rightarrow> string \<Rightarrow> real \<Rightarrow> real \<Rightarrow> real \<Rightarrow> (unit, 'g) prog" where
  "make_potential lib self output_dir alpha max_iter tol =
     andthen (fit_potential lib self alpha max_iter tol) (\<lambda>potential.
     write_potential lib output_dir potential)"

section \<open>What the specification says, in its own words\<close>

text \<open>
  The per-atom error of a split: the mean over the rows of the split of
  \<open>|true energy - predicted energy|\<close> over the atom count of the row, where the true
  energy is column 0 and the atom count column 1 of the working table.
  \<open>rows\<close> lists the rows of the split and \<open>predicted\<close> their predictions, in order.
\<close>

definition per_atom_error :: "matrix \<Rightarrow> nat list \<Rightarrow> vec \<Rightarrow> real" where
  "per_atom_error table rows predicted =
     (\<Sum>k<length rows. \<bar>table ! (rows ! k) ! 0 - predicted ! k\<bar> / table ! (rows ! k) ! 1)
       / real (length rows)"

text \<open>
  The model of a fold is fitted, without intercept, on the training rows: all columns
  of the working table after the energy against the energy.
\<close>

definition rows_x :: "matrix \<Rightarrow> nat list \<Rightarrow> matrix" where
  "rows_x table rows = map (\<lambda>j. drop 1 (table ! j)) rows"

definition rows_y :: "matrix \<Rightarrow> nat list \<Rightarrow> vec" where
  "rows_y table rows = map (\<lambda>j. table ! j ! 0) rows"

definition fold_model ::
  "('m, 'g) library \<Rightarrow> model_kind \<Rightarrow> real \<Rightarrow> real \<Rightarrow> real \<Rightarrow> matrix \<Rightarrow> nat \<Rightarrow> 'm" where
  "fold_model lib kind alpha max_iter tol table i =
     sk_fit_vec lib kind alpha max_iter tol False
       (rows_x table (train_id (length table) i)) (rows_y table (train_id (length table) i))"

definition validation_error ::
  "('m, 'g) library \<Rightarrow> model_kind \<Rightarrow> real \<Rightarrow> real \<Rightarrow> real \<Rightarrow> matrix \<Rightarrow> nat \<Rightarrow> real" where
  "validation_error lib kind alpha max_iter tol table i =
     per_atom_error table (validation_id (length table) i)
       (sk_predict lib (fold_model lib kind alpha max_iter tol table i)
          (rows_x table (validation_id (length table) i)))"

definition train_error ::
  "('m, 'g) library \<Rightarrow> model_kind \<Rightarrow> real \<Rightarrow> real \<Rightarrow> real \<Rightarrow> matrix \<Rightarrow> nat \<Rightarrow> real" where
  "train_error lib kind alpha max_iter tol table i =
     per_atom_error table (train_id (length table) i)
       (sk_predict lib (fold_model lib kind alpha max_iter tol table i)
          (rows_x table (train_id (length table) i)))"

text \<open>The working table of a run: the shuffled copy that lines 144 to 146 leave.\<close>

definition working_table :: "('m, 'g) library \<Rightarrow> trainer \<Rightarrow> int \<Rightarrow> 'g world \<Rightarrow> error + matrix" where
  "working_table lib self seed w =
     (case shuffled_copy lib self seed w of
        (Inl e, w') \<Rightarrow> Inl e
      | (Inr data, w') \<Rightarrow> Inr (arrays w' ! data))"

text \<open>
  The number of columns of a matrix, the number \<open>D\<close> of descriptor columns of an
  \<open>N \<times> (1 + D)\<close> matrix \<open>X\<close>, the number of lines of a text, and the number of lines of
  the potential file of a directory.
\<close>

definition column_count :: "matrix \<Rightarrow> nat" where
  "column_count x = (case x of [] \<Rightarrow> 0 | r # _ \<Rightarrow> length r)"

definition descriptor_count :: "matrix \<Rightarrow> nat" where
  "descriptor_count x = column_count x - 1"

definition count_lines :: "string \<Rightarrow> nat" where
  "count_lines s = length (filter (\<lambda>c. c = CHR 0x0A) s)"

definition potential_lines :: "'g world \<Rightarrow> string \<Rightarrow> nat option" where
  "potential_lines w output_dir =
     map_option count_lines (files w (os_path_join output_dir ''re_potential''))"

section \<open>A small library and dataset for the examples\<close>

text \<open>
  The concrete inputs the theorems are instantiated at. The table has five structures
  of two atoms and two descriptors, with energy \<open>2 b\<^sub>1 + 2 b\<^sub>2\<close>. The solver of the
  examples answers the coefficients \<open>(0, 2, ..., 2)\<close>, one per column of the matrix it is
  given, which fit this table exactly; a model is its kind with its coefficient vector,
  a prediction the product of a row with the vector, and \<open>coef_\<close> is the vector itself
  for a Lasso model (one axis) and the matrix of that one row for a Ridge model (two).
  The normaliser of the examples works on columns as scikit-learn's \<^verbatim>\<open>normalize\<close>
  does for the norms \<open>l1\<close> and \<open>max\<close>: the scale of a column is its norm, a scale of
  zero is replaced by one, and any other norm is refused. The printer of the examples
  knows the two coefficients that occur.
\<close>

definition example_X :: matrix where
  "example_X = [[2, 1, 1], [2, 2, 1], [2, 3, 1], [2, 1, 2], [2, 2, 2]]"

definition example_y :: matrix where
  "example_y = [[4], [6], [8], [6], [8]]"

definition example_fit :: "matrix \<Rightarrow> vec" where
  "example_fit x = (case x of [] \<Rightarrow> [] | r # _ \<Rightarrow> 0 # replicate (length r - 1) 2)"

definition example_predict :: "vec \<Rightarrow> matrix \<Rightarrow> vec" where
  "example_predict m x = map (\<lambda>r. sum_list (map2 (*) r m)) x"

definition column_norm :: "string \<Rightarrow> vec \<Rightarrow> real" where
  "column_norm nm c =
     (if nm = ''l1'' then sum_list (map abs c) else foldl max 0 (map abs c))"

definition column_scale :: "string \<Rightarrow> vec \<Rightarrow> real" where
  "column_scale nm c = (if column_norm nm c = 0 then 1 else column_norm nm c)"

definition example_normalize :: "string \<Rightarrow> matrix \<Rightarrow> error + matrix \<times> vec" where
  "example_normalize nm x =
     (case x of
        [] \<Rightarrow> Inl (External ''no samples'')
      | r # _ \<Rightarrow>
          if nm = ''l1'' \<or> nm = ''max'' then
            Inr (map (\<lambda>row. map2 (/) row
                        (map (\<lambda>j. column_scale nm (map (\<lambda>row. row ! j) x)) [0..<length r])) x,
                 map (\<lambda>j. column_scale nm (map (\<lambda>row. row ! j) x)) [0..<length r])
          else Inl (External ''not a supported norm''))"

definition example_seed :: "int \<Rightarrow> error + nat" where
  "example_seed s = (if 0 \<le> s \<and> s < 2 ^ 32 then Inr (nat s) else Inl (External ''seed''))"

definition example_str :: "real \<Rightarrow> string" where
  "example_str v = (if v = 0 then ''0.0'' else if v = 2 then ''2.0'' else ''nan'')"

definition example_coef_of :: "model_kind \<times> vec \<Rightarrow> coef" where
  "example_coef_of m = (case fst m of Lasso \<Rightarrow> Coef_1d (snd m) | Ridge \<Rightarrow> Coef_2d [snd m])"

definition example_library :: "(model_kind \<times> vec, nat) library" where
  "example_library =
     \<lparr>sk_fit_vec = (\<lambda>kind alpha max_iter tol fit_intercept x y. (kind, example_fit x)),
      sk_fit_mat = (\<lambda>kind alpha max_iter tol fit_intercept x y. (kind, example_fit x)),
      sk_predict = (\<lambda>m. example_predict (snd m)),
      sk_coef = example_coef_of,
      sk_normalize = example_normalize,
      io_loadmat = (\<lambda>dir. Inr [''X'' \<mapsto> example_X, ''y'' \<mapsto> example_y]),
      np_seed = example_seed,
      np_shuffle = (\<lambda>g a. (rev a, Suc g)),
      py_str = example_str\<rparr>"

definition example_world :: "nat world" where
  "example_world =
     \<lparr>arrays = [], rng = 0, plots = [], files = Map.empty, writable = (\<lambda>path. True)\<rparr>"

text \<open>The trainer and the world that \<open>init\<close> makes of them, without a norm.\<close>

definition example_table :: matrix where
  "example_table = [[4, 2, 1, 1], [6, 2, 2, 1], [8, 2, 3, 1], [6, 2, 1, 2], [8, 2, 2, 2]]"

definition example_trainer :: trainer where
  "example_trainer =
     \<lparr>data_dir = ''re.mat'', f = Some Ridge, norm_kind = None, norms = None,
      training_x = 0, training_y = 1, training_data = 2\<rparr>"

definition example_world_loaded :: "nat world" where
  "example_world_loaded = example_world\<lparr>arrays := [example_X, example_y, example_table]\<rparr>"

text \<open>The same with the norm \<open>l1\<close>: the scales of the two descriptor columns are 9 and 7.\<close>

definition example_X_l1 :: matrix where
  "example_X_l1 =
     [[2, 1 / 9, 1 / 7], [2, 2 / 9, 1 / 7], [2, 3 / 9, 1 / 7], [2, 1 / 9, 2 / 7],
      [2, 2 / 9, 2 / 7]]"

definition example_table_l1 :: matrix where
  "example_table_l1 =
     [[4, 2, 1 / 9, 1 / 7], [6, 2, 2 / 9, 1 / 7], [8, 2, 3 / 9, 1 / 7], [6, 2, 1 / 9, 2 / 7],
      [8, 2, 2 / 9, 2 / 7]]"

definition example_trainer_l1 :: trainer where
  "example_trainer_l1 =
     \<lparr>data_dir = ''re.mat'', f = Some Ridge, norm_kind = Some ''l1'', norms = Some [9, 7],
      training_x = 0, training_y = 1, training_data = 2\<rparr>"

definition example_world_l1 :: "nat world" where
  "example_world_l1 = example_world\<lparr>arrays := [example_X_l1, example_y, example_table_l1]\<rparr>"

section \<open>Runs that only show figures\<close>

text \<open>
  \<open>emits p r ps\<close>: from every world the run \<open>p\<close> ends with the outcome \<open>r\<close> and has
  shown the figures \<open>ps\<close>, and nothing else of the world has changed.
\<close>

definition emits :: "('a, 'g) prog \<Rightarrow> error + 'a \<Rightarrow> plot_call list \<Rightarrow> bool" where
  "emits p r ps \<longleftrightarrow> (\<forall>w. p w = (r, w\<lparr>plots := plots w @ ps\<rparr>))"

definition plots_only :: "('a, 'g) prog \<Rightarrow> bool" where
  "plots_only p \<longleftrightarrow> (\<exists>r ps. emits p r ps)"

section \<open>The fold assignment is a partition\<close>

lemma validation_id_filter:
  "validation_id n i = filter (\<lambda>j. (j - i) mod 5 = 0) [i..<n]"
proof -
  have "map (nth [0..<n]) (filter (\<lambda>j. (j - i) mod 5 = 0) [i..<n])
        = filter (\<lambda>j. (j - i) mod 5 = 0) [i..<n]"
    by (rule map_idI) simp
  then show ?thesis
    by (simp add: validation_id_def all_id_def py_range_def py_slice_step_def)
qed

lemma mod5_shift:
  fixes i j :: nat
  assumes "i < 5"
  shows "(i \<le> j \<and> (j - i) mod 5 = 0) = (j mod 5 = i)"
proof
  assume a: "i \<le> j \<and> (j - i) mod 5 = 0"
  then obtain k where "j - i = 5 * k"
    by (auto simp: mod_eq_0_iff_dvd)
  with a have "j = i + 5 * k" by simp
  with assms show "j mod 5 = i" by simp
next
  assume b: "j mod 5 = i"
  then have "i \<le> j" by (metis mod_less_eq_dividend)
  moreover have "j - j mod 5 = 5 * (j div 5)"
    by (simp add: minus_mod_eq_mult_div)
  ultimately show "i \<le> j \<and> (j - i) mod 5 = 0"
    using b by simp
qed

lemma set_validation_id:
  assumes "i < 5"
  shows "set (validation_id n i) = {j. j < n \<and> j mod 5 = i}"
proof -
  have "set (validation_id n i) = {j. j < n \<and> (i \<le> j \<and> (j - i) mod 5 = 0)}"
    unfolding validation_id_filter by auto
  then show ?thesis
    by (simp only: mod5_shift [OF assms])
qed

lemma set_train_id: "set (train_id n i) = {0..<n} - set (validation_id n i)"
  unfolding train_id_def all_id_def py_range_def by auto

lemma validation_disjoint:
  "i < 5 \<Longrightarrow> j < 5 \<Longrightarrow> i \<noteq> j \<Longrightarrow> set (validation_id n i) \<inter> set (validation_id n j) = {}"
  by (auto simp: set_validation_id)

lemma validation_cover: "(\<Union>i<5. set (validation_id n i)) = {0..<n}"
proof (rule set_eqI)
  fix j :: nat
  have "j mod 5 < 5" by simp
  then show "j \<in> (\<Union>i<5. set (validation_id n i)) \<longleftrightarrow> j \<in> {0..<n}"
    by (auto simp: set_validation_id)
qed

lemma distinct_validation_id: "distinct (validation_id n i)"
  unfolding validation_id_filter by simp

lemma distinct_train_id: "distinct (train_id n i)"
  unfolding train_id_def all_id_def py_range_def by simp

lemma validation_id_less: "list_all (\<lambda>j. j < n) (validation_id n i)"
  unfolding validation_id_filter by (simp add: list_all_iff)

lemma train_id_less: "list_all (\<lambda>j. j < n) (train_id n i)"
  unfolding train_id_def all_id_def py_range_def by (simp add: list_all_iff)

text \<open>
  Claim C2. For a working table of \<open>n\<close> rows (any \<open>n\<close>, so in particular \<open>n \<ge> 5\<close>), the
  validation indices of fold \<open>i\<close> are the row indices congruent to \<open>i\<close> modulo 5, the
  five validation sets are pairwise disjoint, their union is \<open>{0, ..., n - 1}\<close>, and
  the training indices of a fold are exactly the complement of its validation indices.
\<close>

theorem fold_assignment_partition:
  "(\<forall>i<5. set (validation_id n i) = {j. j < n \<and> j mod 5 = i})
   \<and> (\<forall>i<5. \<forall>j<5. i \<noteq> j \<longrightarrow> set (validation_id n i) \<inter> set (validation_id n j) = {})
   \<and> (\<Union>i<5. set (validation_id n i)) = {0..<n}
   \<and> (\<forall>i<5. set (train_id n i) = {0..<n} - set (validation_id n i))"
proof (intro conjI allI impI)
  fix i :: nat
  assume "i < 5"
  then show "set (validation_id n i) = {j. j < n \<and> j mod 5 = i}"
    by (rule set_validation_id)
next
  fix i j :: nat
  assume "i < 5" "j < 5" "i \<noteq> j"
  then show "set (validation_id n i) \<inter> set (validation_id n j) = {}"
    by (rule validation_disjoint)
next
  show "(\<Union>i<5. set (validation_id n i)) = {0..<n}"
    by (rule validation_cover)
next
  fix i :: nat
  show "set (train_id n i) = {0..<n} - set (validation_id n i)"
    by (rule set_train_id)
qed

lemma validation_id_10_0: "validation_id 10 0 = [0, 5]"
  by (simp add: validation_id_filter upt_rec)
lemma validation_id_10_1: "validation_id 10 1 = [1, 6]"
  by (simp add: validation_id_filter upt_rec)
lemma train_id_10_0: "train_id 10 0 = [1, 2, 3, 4, 6, 7, 8, 9]"
  by (simp add: train_id_def all_id_def py_range_def validation_id_10_0 upt_rec)

theorem fold_assignment_partition_witness:
  "set (validation_id 10 0) = {j. j < 10 \<and> j mod 5 = 0}
   \<and> set (validation_id 10 0) \<inter> set (validation_id 10 1) = {}
   \<and> (\<Union>i<5. set (validation_id 10 i)) = {0..<10}
   \<and> set (train_id 10 0) = {0..<10} - set (validation_id 10 0)
   \<and> validation_id 10 0 = [0, 5] \<and> validation_id 10 1 = [1, 6]
   \<and> train_id 10 0 = [1, 2, 3, 4, 6, 7, 8, 9]"
proof -
  note part = fold_assignment_partition [of 10]
  have less: "(0::nat) < 5" "(1::nat) < 5" "(0::nat) \<noteq> 1"
    by simp_all
  have "set (validation_id 10 0) = {j. j < 10 \<and> j mod 5 = 0}"
    by (rule part [THEN conjunct1, rule_format, OF less(1)])
  moreover have "set (validation_id 10 0) \<inter> set (validation_id 10 1) = {}"
    by (rule part [THEN conjunct2, THEN conjunct1, rule_format, OF less])
  moreover have "(\<Union>i<5. set (validation_id 10 i)) = {0..<10}"
    by (rule part [THEN conjunct2, THEN conjunct2, THEN conjunct1])
  moreover have "set (train_id 10 0) = {0..<10} - set (validation_id 10 0)"
    by (rule part [THEN conjunct2, THEN conjunct2, THEN conjunct2, rule_format, OF less(1)])
  ultimately show ?thesis
    by (simp only: validation_id_10_0 validation_id_10_1 train_id_10_0 simp_thms)
qed

section \<open>Laws of sequencing\<close>

lemma andthen_ok [simp]: "andthen (ok v) k = k v"
  by (rule ext) (simp add: andthen_def ok_def)

lemma andthen_lift_Inr [simp]: "andthen (lift (Inr v)) k = k v"
  by (rule ext) (simp add: andthen_def lift_def)

lemma andthen_lift_Inl [simp]: "andthen (lift (Inl e)) k = lift (Inl e)"
  by (rule ext) (simp add: andthen_def lift_def)

lemma emits_ok: "emits (ok v) (Inr v) []"
  by (simp add: emits_def ok_def)

lemma emits_lift: "emits (lift r) r []"
  by (simp add: emits_def lift_def)

lemma emits_show_plot: "emits (show_plot c) (Inr ()) [c]"
  by (simp add: emits_def show_plot_def)

lemma emits_andthen_Inr:
  "emits p (Inr v) ps \<Longrightarrow> emits (k v) r qs \<Longrightarrow> emits (andthen p k) r (ps @ qs)"
  by (simp add: emits_def andthen_def)

lemma emits_andthen_Inl: "emits p (Inl e) ps \<Longrightarrow> emits (andthen p k) (Inl e) ps"
  by (simp add: emits_def andthen_def)

lemma plots_only_ok: "plots_only (ok v)"
  unfolding plots_only_def by (intro exI) (rule emits_ok)

lemma plots_only_lift: "plots_only (lift r)"
  unfolding plots_only_def by (intro exI) (rule emits_lift)

lemma plots_only_show_plot: "plots_only (show_plot c)"
  unfolding plots_only_def by (intro exI) (rule emits_show_plot)

lemma plots_only_andthen:
  assumes "plots_only p" and "\<And>v. plots_only (k v)"
  shows "plots_only (andthen p k)"
proof -
  from assms(1) obtain r ps where p: "emits p r ps"
    unfolding plots_only_def by blast
  show ?thesis
  proof (cases r)
    case (Inl e)
    with p have "emits (andthen p k) (Inl e) ps"
      by (simp add: emits_andthen_Inl)
    then show ?thesis
      unfolding plots_only_def by (intro exI)
  next
    case (Inr v)
    from assms(2) obtain r' qs where "emits (k v) r' qs"
      unfolding plots_only_def by blast
    with p Inr have "emits (andthen p k) r' (ps @ qs)"
      by (simp add: emits_andthen_Inr)
    then show ?thesis
      unfolding plots_only_def by (intro exI)
  qed
qed

lemma plots_only_if:
  "plots_only p \<Longrightarrow> plots_only q \<Longrightarrow> plots_only (if c then p else q)"
  by simp

lemma plots_only_case_prod:
  "(\<And>a b. plots_only (k a b)) \<Longrightarrow> plots_only (case x of (a, b) \<Rightarrow> k a b)"
  by (cases x) simp

lemma plots_only_for_each:
  assumes "\<And>x s. plots_only (body x s)"
  shows "plots_only (for_each xs s body)"
proof (induction xs arbitrary: s)
  case Nil
  show ?case by (simp add: plots_only_ok)
next
  case (Cons x xs)
  show ?case
    by (simp add: plots_only_andthen assms Cons.IH)
qed

lemmas plots_only_intros =
  plots_only_andthen plots_only_ok plots_only_lift plots_only_show_plot plots_only_if
  plots_only_case_prod plots_only_for_each

lemma plots_only_plot_y_yhat_atom: "plots_only (plot_y_yhat_atom a b)"
  unfolding plot_y_yhat_atom_def by (rule plots_only_show_plot)

lemma plots_only_plot_y_yhat: "plots_only (plot_y_yhat a b n)"
  unfolding plot_y_yhat_def by (intro plots_only_intros)

lemma plots_only_fold_step:
  "plots_only (fold_step lib self d dx dy num alpha mi tol pim i acc)"
  unfolding fold_step_def
  by (intro plots_only_intros plots_only_plot_y_yhat_atom plots_only_plot_y_yhat)

lemma plots_only_alpha_step:
  "plots_only (alpha_step lib self d dx dy num mi tol pim alpha errs)"
  unfolding alpha_step_def
  by (intro plots_only_intros plots_only_fold_step)

lemma plots_only_alpha_sweep:
  "plots_only (alpha_sweep lib self d alphas mi tol pim)"
  unfolding alpha_sweep_def plot_cross_def
  by (intro plots_only_intros plots_only_alpha_step)

section \<open>What one fold, one alpha and the whole sweep compute\<close>

lemma np_take_in_range:
  "list_all (\<lambda>j. j < length xs) ids \<Longrightarrow> np_take xs ids = Inr (map (nth xs) ids)"
  by (simp add: np_take_def)

lemma np_binop_same_length:
  "length a = length b \<Longrightarrow> np_binop opr a b = Inr (map2 opr a b)"
  by (simp add: np_binop_def broadcast_to_def)

lemma np_col_wide:
  "list_all (\<lambda>r. k < length r) a \<Longrightarrow> np_col a k = Inr (map (\<lambda>r. r ! k) a)"
  by (simp add: np_col_def)

lemma sum_list_nth: "sum_list (xs :: real list) = (\<Sum>k<length xs. xs ! k)"
  by (simp add: sum_list_sum_nth atLeast0LessThan)

lemma per_atom_error_code:
  assumes ids: "list_all (\<lambda>j. j < length table) ids"
      and len: "length predicted = length ids"
  shows "np_average (map2 (/)
            (np_absolute (map2 (-) (map (nth (map (\<lambda>r. r ! 0) table)) ids) predicted))
            (map (nth (map (\<lambda>r. r ! 1) table)) ids))
         = per_atom_error table ids predicted"
proof -
  let ?q = "map2 (/)
            (np_absolute (map2 (-) (map (nth (map (\<lambda>r. r ! 0) table)) ids) predicted))
            (map (nth (map (\<lambda>r. r ! 1) table)) ids)"
  have l: "length ?q = length ids"
    using len by (simp add: np_absolute_def)
  have "?q ! k = \<bar>table ! (ids ! k) ! 0 - predicted ! k\<bar> / table ! (ids ! k) ! 1"
    if "k < length ids" for k
  proof -
    from ids that have "ids ! k < length table"
      by (simp add: list_all_length)
    with that len show ?thesis
      by (simp add: np_absolute_def)
  qed
  then have "(\<Sum>k<length ids. ?q ! k)
             = (\<Sum>k<length ids. \<bar>table ! (ids ! k) ! 0 - predicted ! k\<bar> / table ! (ids ! k) ! 1)"
    by (intro sum.cong) simp_all
  then show ?thesis
    unfolding np_average_def per_atom_error_def
    by (simp only: sum_list_nth [of ?q] l)
qed

lemma rows_x_code:
  "list_all (\<lambda>j. j < length table) ids \<Longrightarrow>
   map (nth (np_cols_from table 1)) ids = rows_x table ids"
  by (simp add: np_cols_from_def rows_x_def list_all_iff)

lemma rows_y_code:
  "list_all (\<lambda>j. j < length table) ids \<Longrightarrow>
   map (nth (map (\<lambda>r. r ! 0) table)) ids = rows_y table ids"
  by (simp add: rows_y_def list_all_iff)

lemma emits_fst: "emits p r ps \<Longrightarrow> fst (p w) = r"
  by (simp add: emits_def)

lemma plots_only_emits:
  assumes "plots_only p" and "fst (p w) = r"
  shows "\<exists>ps. emits p r ps"
proof -
  from assms(1) obtain r' ps where e: "emits p r' ps"
    unfolding plots_only_def by blast
  then have "fst (p w) = r'" by (rule emits_fst)
  with assms(2) e show ?thesis by blast
qed

lemma np_take_data_x:
  "np_take (np_cols_from d 1) (train_id (length d) i) = Inr (rows_x d (train_id (length d) i))"
  "np_take (np_cols_from d 1) (validation_id (length d) i)
     = Inr (rows_x d (validation_id (length d) i))"
  using train_id_less [of "length d" i] validation_id_less [of "length d" i]
  by (simp_all add: np_take_def rows_x_code [symmetric] np_cols_from_def)

lemma np_take_data_y:
  "np_take (map (\<lambda>r. r ! 0) d) (train_id (length d) i) = Inr (rows_y d (train_id (length d) i))"
  "np_take (map (\<lambda>r. r ! 0) d) (validation_id (length d) i)
     = Inr (rows_y d (validation_id (length d) i))"
  using train_id_less [of "length d" i] validation_id_less [of "length d" i]
  by (simp_all add: np_take_def rows_y_code [symmetric])

lemma np_take_num_array:
  "np_take (map (\<lambda>r. r ! 1) d) (train_id (length d) i)
     = Inr (map (nth (map (\<lambda>r. r ! 1) d)) (train_id (length d) i))"
  "np_take (map (\<lambda>r. r ! 1) d) (validation_id (length d) i)
     = Inr (map (nth (map (\<lambda>r. r ! 1) d)) (validation_id (length d) i))"
  using train_id_less [of "length d" i] validation_id_less [of "length d" i]
  by (simp_all add: np_take_def)

lemma length_rows [simp]:
  "length (rows_x d ids) = length ids" "length (rows_y d ids) = length ids"
  by (simp_all add: rows_x_def rows_y_def)

lemma length_np_absolute: "length (np_absolute a) = length a"
  by (simp add: np_absolute_def)

lemma fst_andthen_Inr: "fst (p w) = Inr v \<Longrightarrow> fst (andthen p k w) = fst (k v (snd (p w)))"
  by (cases "p w") (simp add: andthen_def)

lemma fst_andthen_Inl: "fst (p w) = Inl e \<Longrightarrow> fst (andthen p k w) = Inl e"
  by (cases "p w") (simp add: andthen_def)

lemma fold_step_value:
  assumes kind: "f self = Some kind"
      and shape: "\<forall>m x. length (sk_predict lib m x) = length x"
  shows "\<exists>ps. emits
           (fold_step lib self d (np_cols_from d 1) (map (\<lambda>r. r ! 0) d) (map (\<lambda>r. r ! 1) d)
              alpha mi tol pim i acc)
           (Inr (fst acc @ [validation_error lib kind alpha mi tol d i],
                 snd acc @ [train_error lib kind alpha mi tol d i])) ps"
proof (rule plots_only_emits [OF plots_only_fold_step])
  fix w :: "'b world"
  show "fst (fold_step lib self d (np_cols_from d 1) (map (\<lambda>r. r ! 0) d) (map (\<lambda>r. r ! 1) d)
              alpha mi tol pim i acc w)
        = Inr (fst acc @ [validation_error lib kind alpha mi tol d i],
               snd acc @ [train_error lib kind alpha mi tol d i])"
    unfolding fold_step_def
    by (simp add: np_take_data_x np_take_data_y np_take_num_array kind shape
        np_binop_same_length length_np_absolute
        andthen_def lift_def ok_def show_plot_def plot_y_yhat_atom_def plot_y_yhat_def
        validation_error_def train_error_def fold_model_def
        rows_y_code [symmetric] per_atom_error_code [symmetric] 
        validation_id_less train_id_less del: One_nat_def)
qed

lemma emits_for_each:
  assumes "\<And>x s. x \<in> set xs \<Longrightarrow> \<exists>ps. emits (body x s) (Inr (step x s)) ps"
  shows "\<exists>ps. emits (for_each xs s body) (Inr (foldl (\<lambda>s x. step x s) s xs)) ps"
  using assms
proof (induction xs arbitrary: s)
  case Nil
  have "emits (for_each [] s body) (Inr s) []"
    by (simp add: emits_ok)
  then show ?case by auto
next
  case (Cons x xs)
  from Cons.prems obtain ps where a: "emits (body x s) (Inr (step x s)) ps"
    by auto
  from Cons.IH [of "step x s"] Cons.prems
  obtain qs where b:
    "emits (for_each xs (step x s) body) (Inr (foldl (\<lambda>s x. step x s) (step x s) xs)) qs"
    by auto
  from a b have "emits (for_each (x # xs) s body)
      (Inr (foldl (\<lambda>s x. step x s) s (x # xs))) (ps @ qs)"
    by (simp add: emits_andthen_Inr)
  then show ?case by blast
qed

lemma foldl_append_pair:
  "foldl (\<lambda>s x. (fst s @ [g x], snd s @ [h x])) s xs = (fst s @ map g xs, snd s @ map h xs)"
  by (induction xs arbitrary: s) simp_all

lemma foldl_append_one: "foldl (\<lambda>s x. s @ [g x]) s xs = s @ map g xs"
  by (induction xs arbitrary: s) simp_all

lemma np_mean_folds: "np_mean (map g (py_range 5)) = (\<Sum>i<5. g i) / 5"
proof -
  have "sum_list (map g [0..<5]) = sum g {0..<5}"
    by (simp add: interv_sum_list_conv_sum_set_nat)
  then show ?thesis
    by (simp add: np_mean_def py_range_def atLeast0LessThan)
qed

lemma alpha_step_value:
  assumes kind: "f self = Some kind"
      and shape: "\<forall>m x. length (sk_predict lib m x) = length x"
  shows "\<exists>ps. emits
           (alpha_step lib self d (np_cols_from d 1) (map (\<lambda>r. r ! 0) d) (map (\<lambda>r. r ! 1) d)
              mi tol pim alpha errs)
           (Inr (errs @ [(\<Sum>i<5. validation_error lib kind alpha mi tol d i) / 5])) ps"
proof -
  let ?body = "fold_step lib self d (np_cols_from d 1) (map (\<lambda>r. r ! 0) d)
                 (map (\<lambda>r. r ! 1) d) alpha mi tol pim"
  let ?v = "validation_error lib kind alpha mi tol d"
  let ?t = "train_error lib kind alpha mi tol d"
  have "\<exists>ps. emits (for_each (py_range 5) ([], []) ?body)
          (Inr (foldl (\<lambda>s i. (fst s @ [?v i], snd s @ [?t i])) ([], []) (py_range 5))) ps"
    by (rule emits_for_each) (rule fold_step_value [OF kind shape])
  then obtain ps where a:
    "emits (for_each (py_range 5) ([], []) ?body)
       (Inr (map ?v (py_range 5), map ?t (py_range 5))) ps"
    by (auto simp: foldl_append_pair)
  have "emits
           (alpha_step lib self d (np_cols_from d 1) (map (\<lambda>r. r ! 0) d) (map (\<lambda>r. r ! 1) d)
              mi tol pim alpha errs)
           (Inr (errs @ [np_mean (map ?v (py_range 5))])) (ps @ [])"
    unfolding alpha_step_def
    by (rule emits_andthen_Inr [OF a]) (simp add: emits_ok)
  then show ?thesis
    unfolding np_mean_folds by blast
qed

lemma py_max_nonempty: "xs \<noteq> [] \<Longrightarrow> \<exists>m. py_max xs = Inr m"
  by (cases xs) (simp_all add: py_max_def)

lemma py_min_nonempty: "xs \<noteq> [] \<Longrightarrow> \<exists>m. py_min xs = Inr m"
  by (cases xs) (simp_all add: py_min_def)

lemma np_col_table:
  assumes "list_all (\<lambda>r. 2 \<le> length r) d"
  shows "np_col d 0 = Inr (map (\<lambda>r. r ! 0) d)" "np_col d 1 = Inr (map (\<lambda>r. r ! 1) d)"
proof -
  from assms have "list_all (\<lambda>r. 0 < length r) d" "list_all (\<lambda>r. 1 < length r) d"
    by (auto simp: list_all_iff)
  then show "np_col d 0 = Inr (map (\<lambda>r. r ! 0) d)" "np_col d 1 = Inr (map (\<lambda>r. r ! 1) d)"
    by (simp_all add: np_col_def)
qed

lemma alpha_loop_value:
  assumes kind: "f self = Some kind"
      and shape: "\<forall>m x. length (sk_predict lib m x) = length x"
  shows "\<exists>ps. emits
           (for_each alphas errs
              (alpha_step lib self d (np_cols_from d 1) (map (\<lambda>r. r ! 0) d)
                 (map (\<lambda>r. r ! 1) d) mi tol pim))
           (Inr (errs @ map (\<lambda>a. (\<Sum>i<5. validation_error lib kind a mi tol d i) / 5) alphas))
           ps"
proof -
  have "\<exists>ps. emits
           (for_each alphas errs
              (alpha_step lib self d (np_cols_from d 1) (map (\<lambda>r. r ! 0) d)
                 (map (\<lambda>r. r ! 1) d) mi tol pim))
           (Inr (foldl (\<lambda>s a. s @ [(\<Sum>i<5. validation_error lib kind a mi tol d i) / 5])
                   errs alphas)) ps"
    by (rule emits_for_each) (rule alpha_step_value [OF kind shape])
  then show ?thesis
    by (simp only: foldl_append_one)
qed

lemma alpha_sweep_value:
  assumes cols: "list_all (\<lambda>r. 2 \<le> length r) d"
      and kind: "f self = Some kind"
      and shape: "\<forall>m x. length (sk_predict lib m x) = length x"
      and alphas: "alphas \<noteq> []"
  shows "\<exists>ps. emits (alpha_sweep lib self d alphas mi tol pim)
           (Inr (map (\<lambda>a. (\<Sum>i<5. validation_error lib kind a mi tol d i) / 5) alphas)) ps"
proof (rule plots_only_emits [OF plots_only_alpha_sweep])
  fix w :: "'b world"
  let ?errs = "map (\<lambda>a. (\<Sum>i<5. validation_error lib kind a mi tol d i) / 5) alphas"
  let ?loop = "for_each alphas []
              (alpha_step lib self d (np_cols_from d 1) (map (\<lambda>r. r ! 0) d)
                 (map (\<lambda>r. r ! 1) d) mi tol pim)"
  from alpha_loop_value [OF kind shape, of alphas "[]" d mi tol pim]
  obtain ps where "emits ?loop (Inr ?errs) ps"
    by auto
  then have loop: "fst (?loop w) = Inr ?errs"
    by (rule emits_fst)
  from alphas obtain hi lo where m: "py_max ?errs = Inr hi" "py_min ?errs = Inr lo"
    using py_max_nonempty [of ?errs] py_min_nonempty [of ?errs] by auto
  show "fst (alpha_sweep lib self d alphas mi tol pim w) = Inr ?errs"
  proof -
    have "fst (alpha_sweep lib self d alphas mi tol pim w)
          = fst (andthen ?loop (\<lambda>alpha_errors.
              andthen (lift (py_max alpha_errors)) (\<lambda>max_e.
              andthen (lift (py_min alpha_errors)) (\<lambda>min_e.
              andthen (plot_cross alphas alpha_errors
                         (min_e - (max_e - min_e)) (max_e + (max_e - min_e))) (\<lambda>_.
              ok alpha_errors)))) w)"
      unfolding alpha_sweep_def
      by (simp add: np_col_table [OF cols] del: One_nat_def)
    also have "\<dots> = Inr ?errs"
      by (subst fst_andthen_Inr [of ?loop w, OF loop])
        (simp add: m plot_cross_def show_plot_def andthen_def ok_def)
    finally show ?thesis .
  qed
qed

lemma alpha_sweep_empty:
  assumes cols: "list_all (\<lambda>r. 2 \<le> length r) d"
  shows "emits (alpha_sweep lib self d [] mi tol pim) (Inl EmptySequence) []"
  unfolding alpha_sweep_def emits_def
  by (simp add: np_col_table [OF cols] py_max_def lift_def del: One_nat_def)

lemma alpha_sweep_never_empty_result:
  "\<exists>e. fst (alpha_sweep lib self d [] mi tol pim w) = Inl e"
  unfolding alpha_sweep_def
  by (cases "np_col d 0"; cases "np_col d 1") (simp_all add: py_max_def lift_def)

lemma shuffled_copy_seeded:
  assumes "np_seed lib seed = Inr g"
  shows "shuffled_copy lib self seed w =
           (Inr (length (arrays w)),
            w\<lparr>arrays := arrays w @ [fst (np_shuffle lib g (arrays w ! training_data self))],
              rng := snd (np_shuffle lib g (arrays w ! training_data self))\<rparr>)"
  using assms
  by (simp add: shuffled_copy_def andthen_def np_copy_def np_new_def np_random_seed_def
      np_random_shuffle_def ok_def case_prod_beta)

lemma shuffled_copy_bad_seed:
  assumes "np_seed lib seed = Inl e"
  shows "shuffled_copy lib self seed w =
           (Inl e, w\<lparr>arrays := arrays w @ [arrays w ! training_data self]\<rparr>)"
  using assms
  by (simp add: shuffled_copy_def andthen_def np_copy_def np_new_def np_random_seed_def)

lemma working_table_eq:
  "working_table lib self seed w =
     (case np_seed lib seed of
        Inl e \<Rightarrow> Inl e
      | Inr g \<Rightarrow> Inr (fst (np_shuffle lib g (arrays w ! training_data self))))"
  by (cases "np_seed lib seed")
    (simp_all add: working_table_def shuffled_copy_seeded shuffled_copy_bad_seed)

lemma cross_validation_seeded:
  assumes "np_seed lib seed = Inr g"
  shows "cross_validation lib self alphas mi tol pim seed w =
           alpha_sweep lib self (fst (np_shuffle lib g (arrays w ! training_data self)))
             alphas mi tol pim
             (w\<lparr>arrays := arrays w @ [fst (np_shuffle lib g (arrays w ! training_data self))],
               rng := snd (np_shuffle lib g (arrays w ! training_data self))\<rparr>)"
  by (simp add: cross_validation_def andthen_def shuffled_copy_seeded [OF assms] array_at_def)

lemma cross_validation_bad_seed:
  assumes "np_seed lib seed = Inl e"
  shows "cross_validation lib self alphas mi tol pim seed w =
           (Inl e, w\<lparr>arrays := arrays w @ [arrays w ! training_data self]\<rparr>)"
  by (simp add: cross_validation_def andthen_def shuffled_copy_bad_seed [OF assms])

section \<open>The claims about \<^verbatim>\<open>cross_validation\<close>\<close>

lemma working_table_Inr:
  assumes "working_table lib self seed w = Inr d"
  obtains g where "np_seed lib seed = Inr g"
    and "d = fst (np_shuffle lib g (arrays w ! training_data self))"
  using assms unfolding working_table_eq
  by (cases "np_seed lib seed") simp_all

lemma cross_validation_on_table:
  assumes "working_table lib self seed w = Inr d"
  shows "\<exists>w'. cross_validation lib self alphas mi tol pim seed w
               = alpha_sweep lib self d alphas mi tol pim w' \<and> plots w' = plots w"
proof -
  from assms obtain g where g: "np_seed lib seed = Inr g"
    and d: "d = fst (np_shuffle lib g (arrays w ! training_data self))"
    by (rule working_table_Inr)
  show ?thesis
    unfolding cross_validation_seeded [OF g] d by (intro exI conjI) (rule refl, simp)
qed

lemma per_atom_error_exact: "per_atom_error table ids (rows_y table ids) = 0"
  by (simp add: per_atom_error_def rows_y_def)

lemma plots_only_fst: "plots_only p \<Longrightarrow> fst (p w) = fst (p w')"
  unfolding plots_only_def by (auto simp: emits_def)

lemma plots_only_frame:
  assumes "plots_only p"
  shows "arrays (snd (p w)) = arrays w" "rng (snd (p w)) = rng w"
    "files (snd (p w)) = files w" "writable (snd (p w)) = writable w"
  using assms unfolding plots_only_def by (auto simp: emits_def)



subsection \<open>The example, evaluated\<close>

lemma all_less_5: "(\<forall>i<5. P i) = (P 0 \<and> P 1 \<and> P 2 \<and> P 3 \<and> P (4::nat))"
proof
  assume "\<forall>i<5. P i"
  then show "P 0 \<and> P 1 \<and> P 2 \<and> P 3 \<and> P 4"
    by simp
next
  assume a: "P 0 \<and> P 1 \<and> P 2 \<and> P 3 \<and> P 4"
  show "\<forall>i<5. P i"
  proof (intro allI impI)
    fix i :: nat
    assume "i < 5"
    then have "i = 0 \<or> i = 1 \<or> i = 2 \<or> i = 3 \<or> i = 4"
      by arith
    with a show "P i"
      by (elim disjE) simp_all
  qed
qed

lemma example_working_table:
  "working_table example_library example_trainer 2020 example_world_loaded
   = Inr (rev example_table)"
  by (simp add: working_table_eq example_library_def example_seed_def example_trainer_def
      example_world_loaded_def example_world_def)

lemma example_cols: "list_all (\<lambda>r. 2 \<le> length r) (rev example_table)"
  by (simp add: example_table_def)

lemma example_shape: "\<forall>m x. length (sk_predict example_library m x) = length x"
  by (simp add: example_library_def example_predict_def)

lemma example_validation_id: "validation_id 5 0 = [0]" "validation_id 5 1 = [1]"
  "validation_id 5 2 = [2]" "validation_id 5 3 = [3]" "validation_id 5 4 = [4]"
  by code_simp+

lemma example_train_id: "train_id 5 0 = [1, 2, 3, 4]" "train_id 5 1 = [0, 2, 3, 4]"
  "train_id 5 2 = [0, 1, 3, 4]" "train_id 5 3 = [0, 1, 2, 4]" "train_id 5 4 = [0, 1, 2, 3]"
  by code_simp+

lemma example_length: "length (rev example_table) = 5"
  by (simp add: example_table_def)

lemma example_exact_fold:
  "sk_predict example_library
       (fold_model example_library Ridge alpha 1000000 (1 / 10000) (rev example_table) 0)
       (rows_x (rev example_table) (validation_id (length (rev example_table)) 0))
     = rows_y (rev example_table) (validation_id (length (rev example_table)) 0)"
  unfolding fold_model_def example_length example_validation_id example_train_id
  by (simp add: example_table_def 
      rows_x_def rows_y_def example_library_def example_fit_def
      example_predict_def)

lemma example_exact:
  "\<forall>alpha\<in>set [0, 1]. \<forall>i<5.
     sk_predict example_library
       (fold_model example_library Ridge alpha 1000000 (1 / 10000) (rev example_table) i)
       (rows_x (rev example_table) (validation_id (length (rev example_table)) i))
     = rows_y (rev example_table) (validation_id (length (rev example_table)) i)"
  unfolding all_less_5 fold_model_def example_length example_validation_id example_train_id
  by (simp add: example_table_def rows_x_def rows_y_def example_library_def example_fit_def
      example_predict_def)

lemma example_validation_error:
  assumes "alpha = 0 \<or> alpha = 1" and "i < 5"
  shows "validation_error example_library Ridge alpha 1000000 (1 / 10000)
           (rev example_table) i = 0"
proof -
  from assms(1) have "alpha \<in> set [0, 1]" by auto
  from example_exact [rule_format, OF this assms(2)] show ?thesis
    unfolding validation_error_def by (simp only: per_atom_error_exact)
qed

lemma list_of_two: "length xs = Suc (Suc 0) \<Longrightarrow> xs = [xs ! 0, xs ! Suc 0]"
  by (cases xs; cases "tl xs") auto



subsection \<open>The value returned\<close>

text \<open>
  Claim C5. For a non-empty sequence of alphas, \<open>cross_validation\<close> returns one value
  per alpha, in the order of the input, and the \<open>k\<close>-th value is the arithmetic mean over
  the five folds of the per-fold mean per-atom validation error at the \<open>k\<close>-th alpha.
  The trainer's model kind is one of the two known ones, the seed is accepted, the
  working table \<open>d\<close> has the energy column and at least one more, and the library's
  \<open>predict\<close> answers one value per row.
\<close>

theorem cross_validation_mean_per_alpha:
  assumes alphas: "alphas \<noteq> []"
      and kind: "f self = Some kind"
      and table: "working_table lib self seed w = Inr d"
      and cols: "list_all (\<lambda>r. 2 \<le> length r) d"
      and shape: "\<forall>m x. length (sk_predict lib m x) = length x"
  shows "\<exists>errs. fst (cross_validation lib self alphas mi tol pim seed w) = Inr errs
           \<and> length errs = length alphas
           \<and> (\<forall>k<length alphas.
                 errs ! k = (\<Sum>i<5. validation_error lib kind (alphas ! k) mi tol d i) / 5)"
proof -
  let ?errs = "map (\<lambda>a. (\<Sum>i<5. validation_error lib kind a mi tol d i) / 5) alphas"
  from cross_validation_on_table [OF table] obtain w' where
    "cross_validation lib self alphas mi tol pim seed w
       = alpha_sweep lib self d alphas mi tol pim w'"
    by blast
  moreover from alpha_sweep_value [OF cols kind shape alphas] obtain ps where
    "emits (alpha_sweep lib self d alphas mi tol pim) (Inr ?errs) ps"
    by blast
  ultimately have "fst (cross_validation lib self alphas mi tol pim seed w) = Inr ?errs"
    by (simp add: emits_fst)
  then show ?thesis by simp
qed

theorem cross_validation_mean_per_alpha_witness:
  "fst (cross_validation example_library example_trainer [0, 1] 1000000 (1 / 10000) None 2020
          example_world_loaded) = Inr [0, 0]"
proof -
  have alphas: "[0, 1 :: real] \<noteq> []" by simp
  have kind: "f example_trainer = Some Ridge"
    by (simp add: example_trainer_def)
  from cross_validation_mean_per_alpha
         [OF alphas kind example_working_table example_cols example_shape,
          of 1000000 "1 / 10000" None]
  obtain errs where
    r: "fst (cross_validation example_library example_trainer [0, 1] 1000000 (1 / 10000) None
               2020 example_world_loaded) = Inr errs"
    and l: "length errs = length [0, 1 :: real]"
    and v: "\<forall>k<length [0, 1 :: real]. errs ! k =
              (\<Sum>i<5. validation_error example_library Ridge ([0, 1] ! k) 1000000 (1 / 10000)
                         (rev example_table) i) / 5"
    by blast
  have "errs ! 0 = 0"
    using v [rule_format, of 0] by (simp add: example_validation_error)
  moreover have "errs ! 1 = 0"
    using v [rule_format, of 1] by (simp add: example_validation_error)
  moreover from l have "errs = [errs ! 0, errs ! Suc 0]"
    by (simp add: list_of_two)
  ultimately have "errs = [0, 0]" by simp
  with r show ?thesis by simp
qed

text \<open>
  Claim C4. In \<open>cross_validation\<close> the error of the validation split and of the
  training split of a fold is the mean over the rows of the split of
  \<open>|true energy - predicted energy|\<close> over the atom count of the row, the atom count being
  column 1 of the shuffled working table \<open>d\<close>; and when the predictions of every fold
  equal the true energies of its validation rows, the reported mean validation error is
  exactly 0 for every alpha. The second part is stated for tables on which floating
  point arithmetic gives no NaN: at least five rows, so that no split is empty, and no
  atom count of zero.
\<close>

theorem per_atom_error_in_cross_validation:
  assumes kind: "f self = Some kind"
      and table: "working_table lib self seed w = Inr d"
      and cols: "list_all (\<lambda>r. 2 \<le> length r) d"
      and shape: "\<forall>m x. length (sk_predict lib m x) = length x"
  shows "(\<forall>alpha i acc w'.
            fst (fold_step lib self d (np_cols_from d 1) (map (\<lambda>r. r ! 0) d)
                   (map (\<lambda>r. r ! 1) d) alpha mi tol pim i acc w')
            = Inr (fst acc @
                     [per_atom_error d (validation_id (length d) i)
                        (sk_predict lib (fold_model lib kind alpha mi tol d i)
                           (rows_x d (validation_id (length d) i)))],
                   snd acc @
                     [per_atom_error d (train_id (length d) i)
                        (sk_predict lib (fold_model lib kind alpha mi tol d i)
                           (rows_x d (train_id (length d) i)))]))
       \<and> (alphas \<noteq> [] \<and> 5 \<le> length d \<and> list_all (\<lambda>r. r ! 1 \<noteq> 0) d
            \<and> (\<forall>alpha\<in>set alphas. \<forall>i<5.
                  sk_predict lib (fold_model lib kind alpha mi tol d i)
                    (rows_x d (validation_id (length d) i))
                  = rows_y d (validation_id (length d) i))
          \<longrightarrow> fst (cross_validation lib self alphas mi tol pim seed w)
                = Inr (map (\<lambda>alpha. 0) alphas))"
proof (intro conjI allI impI)
  fix alpha i acc and w' :: "'b world"
  from fold_step_value [OF kind shape, of d alpha mi tol pim i acc] obtain ps where
    "emits (fold_step lib self d (np_cols_from d 1) (map (\<lambda>r. r ! 0) d)
              (map (\<lambda>r. r ! 1) d) alpha mi tol pim i acc)
       (Inr (fst acc @ [validation_error lib kind alpha mi tol d i],
             snd acc @ [train_error lib kind alpha mi tol d i])) ps"
    by blast
  then show "fst (fold_step lib self d (np_cols_from d 1) (map (\<lambda>r. r ! 0) d)
                   (map (\<lambda>r. r ! 1) d) alpha mi tol pim i acc w')
            = Inr (fst acc @
                     [per_atom_error d (validation_id (length d) i)
                        (sk_predict lib (fold_model lib kind alpha mi tol d i)
                           (rows_x d (validation_id (length d) i)))],
                   snd acc @
                     [per_atom_error d (train_id (length d) i)
                        (sk_predict lib (fold_model lib kind alpha mi tol d i)
                           (rows_x d (train_id (length d) i)))])"
    by (simp add: emits_fst validation_error_def train_error_def)
next
  assume a: "alphas \<noteq> [] \<and> 5 \<le> length d \<and> list_all (\<lambda>r. r ! 1 \<noteq> 0) d
            \<and> (\<forall>alpha\<in>set alphas. \<forall>i<5.
                  sk_predict lib (fold_model lib kind alpha mi tol d i)
                    (rows_x d (validation_id (length d) i))
                  = rows_y d (validation_id (length d) i))"
  then have zero: "validation_error lib kind alpha mi tol d i = 0"
    if "alpha \<in> set alphas" "i < 5" for alpha i
    using that by (simp add: validation_error_def per_atom_error_exact)
  let ?errs = "map (\<lambda>a. (\<Sum>i<5. validation_error lib kind a mi tol d i) / 5) alphas"
  from cross_validation_on_table [OF table] obtain w' where
    "cross_validation lib self alphas mi tol pim seed w
       = alpha_sweep lib self d alphas mi tol pim w'"
    by blast
  moreover from a alpha_sweep_value [OF cols kind shape] obtain ps where
    "emits (alpha_sweep lib self d alphas mi tol pim) (Inr ?errs) ps"
    by blast
  ultimately have "fst (cross_validation lib self alphas mi tol pim seed w) = Inr ?errs"
    by (simp add: emits_fst)
  moreover have "?errs = map (\<lambda>alpha. 0) alphas"
    by (rule map_cong) (simp_all add: zero)
  ultimately show "fst (cross_validation lib self alphas mi tol pim seed w)
                = Inr (map (\<lambda>alpha. 0) alphas)"
    by simp
qed

theorem per_atom_error_in_cross_validation_witness:
  "fst (fold_step example_library example_trainer (rev example_table)
          (np_cols_from (rev example_table) 1) (map (\<lambda>r. r ! 0) (rev example_table))
          (map (\<lambda>r. r ! 1) (rev example_table)) 1 1000000 (1 / 10000) (Some ''atom'') 0
          ([], []) example_world_loaded)
   = Inr ([per_atom_error (rev example_table) [0] [8]],
          [per_atom_error (rev example_table) [1, 2, 3, 4] [6, 8, 6, 4]])
   \<and> fst (cross_validation example_library example_trainer [0, 1] 1000000 (1 / 10000)
            (Some ''atom'') 2020 example_world_loaded) = Inr [0, 0]"
proof -
  have kind: "f example_trainer = Some Ridge"
    by (simp add: example_trainer_def)
  note inst = per_atom_error_in_cross_validation
      [OF kind example_working_table example_cols example_shape,
       of 1000000 "1 / 10000" "Some ''atom''" "[0, 1]"]
  have hyp: "[0, 1 :: real] \<noteq> [] \<and> 5 \<le> length (rev example_table)
      \<and> list_all (\<lambda>r. r ! 1 \<noteq> 0) (rev example_table)
      \<and> (\<forall>alpha\<in>set [0, 1]. \<forall>i<5.
            sk_predict example_library
              (fold_model example_library Ridge alpha 1000000 (1 / 10000) (rev example_table) i)
              (rows_x (rev example_table) (validation_id (length (rev example_table)) i))
            = rows_y (rev example_table) (validation_id (length (rev example_table)) i))"
    using example_exact by (simp add: example_table_def)
  have pred: "sk_predict example_library
       (fold_model example_library Ridge 1 1000000 (1 / 10000) (rev example_table) 0)
       (rows_x (rev example_table) [0]) = [8]"
    "sk_predict example_library
       (fold_model example_library Ridge 1 1000000 (1 / 10000) (rev example_table) 0)
       (rows_x (rev example_table) [1, 2, 3, 4]) = [6, 8, 6, 4]"
    unfolding fold_model_def example_length example_train_id
    by (simp_all add: example_table_def rows_x_def rows_y_def example_library_def
        example_fit_def example_predict_def)
  from inst [THEN conjunct1, rule_format, of 1 0 "([], [])" example_world_loaded]
  have "fst (fold_step example_library example_trainer (rev example_table)
          (np_cols_from (rev example_table) 1) (map (\<lambda>r. r ! 0) (rev example_table))
          (map (\<lambda>r. r ! 1) (rev example_table)) 1 1000000 (1 / 10000) (Some ''atom'') 0
          ([], []) example_world_loaded)
   = Inr ([per_atom_error (rev example_table) [0] [8]],
          [per_atom_error (rev example_table) [1, 2, 3, 4] [6, 8, 6, 4]])"
    unfolding example_length example_validation_id example_train_id pred by simp
  moreover from inst [THEN conjunct2, rule_format, OF hyp]
  have "fst (cross_validation example_library example_trainer [0, 1] 1000000 (1 / 10000)
            (Some ''atom'') 2020 example_world_loaded) = Inr [0, 0]"
    by simp
  ultimately show ?thesis by (rule conjI)
qed

text \<open>
  Claim C7. For an empty sequence of alphas \<open>cross_validation\<close> returns no result: it
  always ends in an exception, and when the seed is accepted and the working table has
  its two columns, the exception is the one of \<^verbatim>\<open>max\<close> on an empty sequence, raised
  before any figure is shown and passed on to the caller.
\<close>

theorem empty_alpha_range_raises:
  "(\<exists>e. fst (cross_validation lib self [] mi tol pim seed w) = Inl e)
   \<and> (working_table lib self seed w = Inr d \<and> list_all (\<lambda>r. 2 \<le> length r) d
        \<longrightarrow> fst (cross_validation lib self [] mi tol pim seed w) = Inl EmptySequence
            \<and> plots (snd (cross_validation lib self [] mi tol pim seed w)) = plots w)"
proof (intro conjI impI)
  show "\<exists>e. fst (cross_validation lib self [] mi tol pim seed w) = Inl e"
  proof (cases "np_seed lib seed")
    case (Inl e)
    then show ?thesis by (simp add: cross_validation_bad_seed)
  next
    case (Inr g)
    then show ?thesis
      by (simp add: cross_validation_seeded alpha_sweep_never_empty_result)
  qed
next
  assume a: "working_table lib self seed w = Inr d \<and> list_all (\<lambda>r. 2 \<le> length r) d"
  then obtain w' where w': "cross_validation lib self [] mi tol pim seed w
               = alpha_sweep lib self d [] mi tol pim w'" "plots w' = plots w"
    using cross_validation_on_table by blast
  from a have "emits (alpha_sweep lib self d [] mi tol pim) (Inl EmptySequence) []"
    by (simp add: alpha_sweep_empty)
  then have "alpha_sweep lib self d [] mi tol pim w' = (Inl EmptySequence, w')"
    by (simp add: emits_def)
  with w' show "fst (cross_validation lib self [] mi tol pim seed w) = Inl EmptySequence"
    and "plots (snd (cross_validation lib self [] mi tol pim seed w)) = plots w"
    by simp_all
qed

theorem empty_alpha_range_raises_witness:
  "fst (cross_validation example_library example_trainer [] 1000000 (1 / 10000) None 2020
          example_world_loaded) = Inl EmptySequence
   \<and> plots (snd (cross_validation example_library example_trainer [] 1000000 (1 / 10000)
                   None 2020 example_world_loaded)) = plots example_world_loaded"
  using empty_alpha_range_raises
          [of example_library example_trainer 1000000 "1 / 10000" None 2020
              example_world_loaded "rev example_table"]
        example_working_table example_cols
  by simp

subsection \<open>Determinism and the stored arrays\<close>

lemma cross_validation_fst_same:
  assumes "arrays w1 ! training_data self = arrays w2 ! training_data self"
  shows "fst (cross_validation lib self alphas mi tol pim seed w1)
         = fst (cross_validation lib self alphas mi tol pim seed w2)"
proof (cases "np_seed lib seed")
  case (Inl e)
  then show ?thesis by (simp add: cross_validation_bad_seed)
next
  case (Inr g)
  show ?thesis
    unfolding cross_validation_seeded [OF Inr] assms
    by (rule plots_only_fst) (rule plots_only_alpha_sweep)
qed

lemma cross_validation_frame:
  assumes "a < length (arrays w)"
  shows "arrays (snd (cross_validation lib self alphas mi tol pim seed w)) ! a = arrays w ! a"
    and "files (snd (cross_validation lib self alphas mi tol pim seed w)) = files w"
    and "writable (snd (cross_validation lib self alphas mi tol pim seed w)) = writable w"
proof -
  have "arrays (snd (cross_validation lib self alphas mi tol pim seed w)) ! a = arrays w ! a
    \<and> files (snd (cross_validation lib self alphas mi tol pim seed w)) = files w
    \<and> writable (snd (cross_validation lib self alphas mi tol pim seed w)) = writable w"
  proof (cases "np_seed lib seed")
    case (Inl e)
    with assms show ?thesis
      by (simp add: cross_validation_bad_seed nth_append)
  next
    case (Inr g)
    with assms show ?thesis
      by (simp add: cross_validation_seeded plots_only_frame [OF plots_only_alpha_sweep]
          nth_append)
  qed
  then show "arrays (snd (cross_validation lib self alphas mi tol pim seed w)) ! a = arrays w ! a"
    and "files (snd (cross_validation lib self alphas mi tol pim seed w)) = files w"
    and "writable (snd (cross_validation lib self alphas mi tol pim seed w)) = writable w"
    by simp_all
qed

text \<open>
  Claim C6. The shuffled working table of \<open>cross_validation\<close> is a function of the seed
  and of the stored table alone: two runs with the same seed, from any two worlds that
  hold the same table (whatever the state of the random generator and the other arrays),
  have the same working table, hence the same rows in every validation and training
  split, and the same outcome; in particular a second run that follows a first one
  shuffles as the first did.
\<close>

theorem shuffle_determined_by_seed_and_data:
  assumes same: "arrays w1 ! training_data self = arrays w2 ! training_data self"
  shows "working_table lib self seed w1 = working_table lib self seed w2
       \<and> (\<forall>d1 d2 i. working_table lib self seed w1 = Inr d1
                    \<and> working_table lib self seed w2 = Inr d2
            \<longrightarrow> np_take d1 (validation_id (length d1) i) = np_take d2 (validation_id (length d2) i)
              \<and> np_take d1 (train_id (length d1) i) = np_take d2 (train_id (length d2) i))
       \<and> fst (cross_validation lib self alphas mi tol pim seed w1)
         = fst (cross_validation lib self alphas mi tol pim seed w2)
       \<and> (training_data self < length (arrays w1)
            \<longrightarrow> working_table lib self seed
                  (snd (cross_validation lib self alphas mi tol pim seed w1))
                = working_table lib self seed w1)"
proof (intro conjI allI impI)
  show t: "working_table lib self seed w1 = working_table lib self seed w2"
    unfolding working_table_eq same by (rule refl)
  show "fst (cross_validation lib self alphas mi tol pim seed w1)
         = fst (cross_validation lib self alphas mi tol pim seed w2)"
    by (rule cross_validation_fst_same [OF same])
  show "working_table lib self seed (snd (cross_validation lib self alphas mi tol pim seed w1))
        = working_table lib self seed w1"
    if "training_data self < length (arrays w1)"
    unfolding working_table_eq cross_validation_frame(1) [OF that] by (rule refl)
  fix d1 d2 i
  assume "working_table lib self seed w1 = Inr d1 \<and> working_table lib self seed w2 = Inr d2"
  with t have "d1 = d2" by simp
  then show "np_take d1 (validation_id (length d1) i) = np_take d2 (validation_id (length d2) i)"
    and "np_take d1 (train_id (length d1) i) = np_take d2 (train_id (length d2) i)"
    by simp_all
qed

theorem shuffle_determined_by_seed_and_data_witness:
  "working_table example_library example_trainer 2020 example_world_loaded
     = working_table example_library example_trainer 2020 (example_world_loaded\<lparr>rng := 7\<rparr>)
   \<and> working_table example_library example_trainer 2020 example_world_loaded
     = Inr (rev example_table)
   \<and> fst (cross_validation example_library example_trainer [0, 1] 1000000 (1 / 10000) None 2020
            example_world_loaded)
     = fst (cross_validation example_library example_trainer [0, 1] 1000000 (1 / 10000) None 2020
              (example_world_loaded\<lparr>rng := 7\<rparr>))
   \<and> working_table example_library example_trainer 2020
        (snd (cross_validation example_library example_trainer [0, 1] 1000000 (1 / 10000) None
                2020 example_world_loaded))
     = working_table example_library example_trainer 2020 example_world_loaded"
proof -
  have same: "arrays example_world_loaded ! training_data example_trainer
      = arrays (example_world_loaded\<lparr>rng := 7\<rparr>) ! training_data example_trainer"
    by simp
  have valid: "training_data example_trainer < length (arrays example_world_loaded)"
    by (simp add: example_trainer_def example_world_loaded_def)
  note inst = shuffle_determined_by_seed_and_data
      [OF same, of example_library 2020 "[0, 1]" 1000000 "1 / 10000" None]
  from inst [THEN conjunct1] inst [THEN conjunct2, THEN conjunct2, THEN conjunct1]
    inst [THEN conjunct2, THEN conjunct2, THEN conjunct2, rule_format, OF valid]
    example_working_table
  show ?thesis by simp
qed

section \<open>The claims about \<^verbatim>\<open>make_potential\<close>\<close>

lemma fit_potential_pure: "snd (fit_potential lib self alpha mi tol w) = w"
  unfolding fit_potential_def
  by (simp add: andthen_def lift_def ok_def array_at_def
      split: option.split sum.split)

lemma fit_potential_reads:
  assumes "arrays w ! training_x self = arrays w' ! training_x self"
      and "arrays w ! training_y self = arrays w' ! training_y self"
  shows "fst (fit_potential lib self alpha mi tol w) = fst (fit_potential lib self alpha mi tol w')"
  unfolding fit_potential_def using assms
  by (simp add: andthen_def lift_def ok_def array_at_def
      split: option.split sum.split)

lemma fit_potential_plain:
  assumes "f self = Some kind" and "\<not> truthy (norm_kind self)"
      and "sk_coef lib (sk_fit_mat lib kind alpha mi tol False
             (arrays w ! training_x self) (arrays w ! training_y self)) = Coef_2d (c # rest)"
  shows "fit_potential lib self alpha mi tol w = (Inr (Row c), w)"
  unfolding fit_potential_def using assms
  by (simp add: andthen_def lift_def ok_def array_at_def py_index_def first_entry_def)

lemma np_binop_clash:
  assumes "length a \<noteq> length b" "length a \<noteq> 1" "length b \<noteq> 1"
  shows "np_binop opr a b = Inl Broadcast"
  using assms by (simp add: np_binop_def broadcast_to_def)

lemma fit_potential_normalized:
  assumes "f self = Some kind" and "truthy (norm_kind self)" and "norms self = Some s"
      and "sk_coef lib (sk_fit_mat lib kind alpha mi tol False
             (arrays w ! training_x self) (arrays w ! training_y self)) = Coef_2d (c # rest)"
  shows "fit_potential lib self alpha mi tol w = (np_divide (Row c) s, w)"
  unfolding fit_potential_def using assms
  by (simp add: andthen_def lift_def ok_def array_at_def py_index_def first_entry_def)

lemma write_loop:
  assumes "files w path = Some old" and "k \<le> length p"
  shows "for_each [k..<length p] ()
           (\<lambda>i _. andthen (lift (item_index (Row p) i)) (\<lambda>c. py_write path (str c @ [CHR 0x0A]))) w
         = (Inr (), w\<lparr>files := (files w)(path \<mapsto>
               old @ concat (map (\<lambda>c. str c @ [CHR 0x0A]) (drop k p)))\<rparr>)"
  using assms
proof (induction "length p - k" arbitrary: k w old)
  case 0
  then have "(files w)(path \<mapsto> old) = files w"
    by (simp add: map_upd_triv)
  with 0 show ?case by (simp add: ok_def)
next
  case (Suc n)
  then have k: "k < length p" by simp
  let ?w = "w\<lparr>files := (files w)(path \<mapsto> old @ str (p ! k) @ [CHR 0x0A])\<rparr>"
  have step: "andthen (lift (item_index (Row p) k)) (\<lambda>c. py_write path (str c @ [CHR 0x0A])) w
              = (Inr (), ?w)"
    using k Suc.prems by (simp add: item_index_def py_index_def py_write_def)
  have "n = length p - Suc k" using Suc.hyps(2) by simp
  moreover have "files ?w path = Some (old @ str (p ! k) @ [CHR 0x0A])" by simp
  moreover have "Suc k \<le> length p" using k by simp
  ultimately have rest: "for_each [Suc k..<length p] ()
           (\<lambda>i _. andthen (lift (item_index (Row p) i)) (\<lambda>c. py_write path (str c @ [CHR 0x0A]))) ?w
         = (Inr (), ?w\<lparr>files := (files ?w)(path \<mapsto>
               (old @ str (p ! k) @ [CHR 0x0A])
                 @ concat (map (\<lambda>c. str c @ [CHR 0x0A]) (drop (Suc k) p)))\<rparr>)"
    by (rule Suc.hyps(1))
  have "[k..<length p] = k # [Suc k..<length p]"
    using k by (simp add: upt_conv_Cons)
  moreover have "drop k p = p ! k # drop (Suc k) p"
    using k by (simp add: Cons_nth_drop_Suc)
  ultimately show ?case
    using step rest by (simp add: andthen_def)
qed

lemma write_potential_writable:
  assumes "writable w (os_path_join out ''re_potential'')"
  shows "write_potential lib out (Row p) w
         = (Inr (), w\<lparr>files := (files w)(os_path_join out ''re_potential'' \<mapsto>
               concat (map (\<lambda>c. py_str lib c @ [CHR 0x0A]) p))\<rparr>)"
proof -
  let ?path = "os_path_join out ''re_potential''"
  let ?w = "w\<lparr>files := (files w)(?path \<mapsto> [])\<rparr>"
  have "files ?w ?path = Some []" by simp
  from write_loop [OF this, of 0 p "py_str lib"]
  show ?thesis
    using assms
    by (simp add: write_potential_def andthen_def py_open_w_def py_range_def py_len_def)
qed

lemma write_potential_number:
  assumes "writable w (os_path_join out ''re_potential'')"
  shows "write_potential lib out (Number a) w
         = (Inl NoLength, w\<lparr>files := (files w)(os_path_join out ''re_potential'' \<mapsto> [])\<rparr>)"
  using assms
  by (simp add: write_potential_def andthen_def py_open_w_def py_len_def lift_def)

lemma write_potential_unwritable:
  assumes "\<not> writable w (os_path_join out ''re_potential'')"
  shows "write_potential lib out p w = (Inl OSError, w)"
  using assms by (simp add: write_potential_def andthen_def py_open_w_def)

lemma write_potential_same:
  assumes "files w = files w'" and "writable w = writable w'"
  shows "fst (write_potential lib out p w) = fst (write_potential lib out p w')"
    and "files (snd (write_potential lib out p w)) = files (snd (write_potential lib out p w'))"
  using assms
  by (cases "writable w (os_path_join out ''re_potential'')"; cases p;
      simp add: write_potential_writable write_potential_number write_potential_unwritable)+

lemma make_potential_split:
  "make_potential lib self out alpha mi tol w =
     (case fst (fit_potential lib self alpha mi tol w) of
        Inl e \<Rightarrow> (Inl e, w)
      | Inr p \<Rightarrow> write_potential lib out p w)"
proof -
  obtain r where "fit_potential lib self alpha mi tol w = (r, w)"
    using fit_potential_pure [of lib self alpha mi tol w]
    by (cases "fit_potential lib self alpha mi tol w") simp
  then show ?thesis
    by (cases r) (simp_all add: make_potential_def andthen_def)
qed

lemma count_lines_concat:
  assumes "\<forall>v. CHR 0x0A \<notin> set (str v)"
  shows "count_lines (concat (map (\<lambda>v. str v @ [CHR 0x0A]) c)) = length c"
proof (induction c)
  case Nil
  show ?case by (simp add: count_lines_def)
next
  case (Cons v c)
  from assms have "filter (\<lambda>ch. ch = CHR 0x0A) (str v) = []"
    by (auto simp: filter_empty_conv)
  with Cons show ?case by (simp add: count_lines_def)
qed

lemma example_coef:
  "sk_coef example_library (sk_fit_mat example_library Ridge alpha mi tol False
     (arrays example_world_loaded ! training_x example_trainer)
     (arrays example_world_loaded ! training_y example_trainer)) = Coef_2d ([0, 2, 2] # [])"
  by (simp add: example_library_def example_coef_of_def example_fit_def
      example_world_loaded_def example_trainer_def example_X_def)

lemma example_str_line: "\<forall>v. CHR 0x0A \<notin> set (py_str example_library v)"
  by (simp add: example_library_def example_str_def)

lemma example_make_potential:
  "make_potential example_library example_trainer ''out'' 1 1000000 (1 / 10000)
     example_world_loaded
   = (Inr (), example_world_loaded\<lparr>files :=
        (files example_world_loaded)(''out/re_potential'' \<mapsto>
           [CHR ''0'', CHR ''.'', CHR ''0'', CHR 0x0A, CHR ''2'', CHR ''.'', CHR ''0'', CHR 0x0A,
            CHR ''2'', CHR ''.'', CHR ''0'', CHR 0x0A])\<rparr>)"
proof -
  have kind: "f example_trainer = Some Ridge" and plain: "\<not> truthy (norm_kind example_trainer)"
    by (simp_all add: example_trainer_def truthy_def)
  have can_write: "writable example_world_loaded (os_path_join ''out'' ''re_potential'')"
    by (simp add: example_world_loaded_def example_world_def)
  have path: "os_path_join ''out'' ''re_potential'' = ''out/re_potential''"
    by (simp add: os_path_join_def)
  have "make_potential example_library example_trainer ''out'' 1 1000000 (1 / 10000)
          example_world_loaded
        = write_potential example_library ''out'' (Row [0, 2, 2]) example_world_loaded"
    by (simp add: make_potential_split fit_potential_plain [OF kind plain example_coef])
  also have "\<dots> = (Inr (), example_world_loaded\<lparr>files :=
        (files example_world_loaded)(os_path_join ''out'' ''re_potential'' \<mapsto>
           concat (map (\<lambda>c. py_str example_library c @ [CHR 0x0A]) [0, 2, 2]))\<rparr>)"
    by (rule write_potential_writable [OF can_write])
  finally show ?thesis
    by (simp add: path example_library_def example_str_def)
qed

text \<open>
  A solver whose \<^verbatim>\<open>coef_\<close> has one axis: \<^verbatim>\<open>coef_[0]\<close> is the first coefficient alone.
  Without a norm the file is opened and emptied, and \<^verbatim>\<open>len\<close> of the number raises; with
  a norm the number is divided by every scale and those quotients are written.
\<close>

lemma fit_potential_one_axis:
  assumes "f self = Some kind"
      and "sk_coef lib (sk_fit_mat lib kind alpha mi tol False
             (arrays w ! training_x self) (arrays w ! training_y self)) = Coef_1d (a # rest)"
  shows "fit_potential lib self alpha mi tol w =
           (if truthy (norm_kind self)
            then (case norms self of
                    None \<Rightarrow> Inl AttributeError
                  | Some s \<Rightarrow> Inr (Row (map (\<lambda>d. a / d) s)))
            else Inr (Number a), w)"
  unfolding fit_potential_def using assms
  by (simp add: andthen_def lift_def ok_def array_at_def py_index_def first_entry_def
      np_divide_def split: option.split)

lemma make_potential_one_axis:
  assumes kind: "f self = Some kind"
      and plain: "\<not> truthy (norm_kind self)"
      and coef: "sk_coef lib (sk_fit_mat lib kind alpha mi tol False
                   (arrays w ! training_x self) (arrays w ! training_y self))
                 = Coef_1d (a # rest)"
      and can_write: "writable w (os_path_join out ''re_potential'')"
  shows "make_potential lib self out alpha mi tol w
         = (Inl NoLength, w\<lparr>files := (files w)(os_path_join out ''re_potential'' \<mapsto> [])\<rparr>)"
  by (simp add: make_potential_split fit_potential_one_axis [OF kind coef] plain
      write_potential_number [OF can_write])

lemma make_potential_one_axis_normalized:
  assumes kind: "f self = Some kind"
      and normed: "truthy (norm_kind self)"
      and scales: "norms self = Some s"
      and coef: "sk_coef lib (sk_fit_mat lib kind alpha mi tol False
                   (arrays w ! training_x self) (arrays w ! training_y self))
                 = Coef_1d (a # rest)"
      and can_write: "writable w (os_path_join out ''re_potential'')"
  shows "make_potential lib self out alpha mi tol w
         = (Inr (), w\<lparr>files := (files w)(os_path_join out ''re_potential'' \<mapsto>
               concat (map (\<lambda>v. py_str lib v @ [CHR 0x0A]) (map (\<lambda>d. a / d) s)))\<rparr>)"
  by (simp add: make_potential_split fit_potential_one_axis [OF kind coef] normed scales
      write_potential_writable [OF can_write])

lemma example_make_potential_lasso:
  "make_potential example_library (example_trainer\<lparr>f := Some Lasso\<rparr>) ''out'' 1 1000000
     (1 / 10000) example_world_loaded
   = (Inl NoLength,
      example_world_loaded\<lparr>files := (files example_world_loaded)(''out/re_potential'' \<mapsto> [])\<rparr>)"
proof -
  have kind: "f (example_trainer\<lparr>f := Some Lasso\<rparr>) = Some Lasso"
    and plain: "\<not> truthy (norm_kind (example_trainer\<lparr>f := Some Lasso\<rparr>))"
    by (simp_all add: example_trainer_def truthy_def)
  have coef: "sk_coef example_library (sk_fit_mat example_library Lasso 1 1000000 (1 / 10000)
      False (arrays example_world_loaded ! training_x (example_trainer\<lparr>f := Some Lasso\<rparr>))
      (arrays example_world_loaded ! training_y (example_trainer\<lparr>f := Some Lasso\<rparr>)))
    = Coef_1d (0 # [2, 2])"
    by (simp add: example_library_def example_coef_of_def example_fit_def
        example_world_loaded_def example_trainer_def example_X_def)
  have can_write: "writable example_world_loaded (os_path_join ''out'' ''re_potential'')"
    by (simp add: example_world_loaded_def example_world_def)
  have path: "os_path_join ''out'' ''re_potential'' = ''out/re_potential''"
    by (simp add: os_path_join_def)
  from make_potential_one_axis [OF kind plain coef can_write]
  show ?thesis unfolding path .
qed

text \<open>
  Claim C1, as the code has it, for the case the code is written for: a trainer with a
  known model kind and no norm, and a solver whose \<^verbatim>\<open>coef_\<close> has two axes, its first
  row holding one coefficient per column of the matrix it is given. \<open>make_potential\<close>
  then fits one model, without intercept, on the whole stored matrix \<open>X\<close> against the
  stored energies. \<open>X\<close> is \<open>N \<times> (1 + D)\<close> and all its columns are fitted, the atom count
  and the \<open>D\<close> descriptors, so the file \<^verbatim>\<open><output_dir>/re_potential\<close>, when it can be
  opened, holds exactly \<open>1 + D\<close> lines, one printed coefficient each (no printed float
  has a newline in it), whatever the file held before. The trainer with a norm and the
  solver with a one-axis \<^verbatim>\<open>coef_\<close> are not part of this statement.
\<close>

theorem make_potential_writes_one_line_per_column:
  assumes kind: "f self = Some kind"
      and plain: "\<not> truthy (norm_kind self)"
      and coef: "sk_coef lib (sk_fit_mat lib kind alpha mi tol False
                   (arrays w ! training_x self) (arrays w ! training_y self))
                 = Coef_2d (c # rest)"
      and columns: "length c = column_count (arrays w ! training_x self)"
      and atoms: "1 \<le> column_count (arrays w ! training_x self)"
      and can_write: "writable w (os_path_join out ''re_potential'')"
      and str: "\<forall>v. CHR 0x0A \<notin> set (py_str lib v)"
  shows "make_potential lib self out alpha mi tol w
         = (Inr (), w\<lparr>files := (files w)(os_path_join out ''re_potential'' \<mapsto>
               concat (map (\<lambda>v. py_str lib v @ [CHR 0x0A]) c))\<rparr>)
       \<and> potential_lines (snd (make_potential lib self out alpha mi tol w)) out
         = Some (1 + descriptor_count (arrays w ! training_x self))"
proof -
  from columns atoms have lines: "length c = 1 + descriptor_count (arrays w ! training_x self)"
    by (simp add: descriptor_count_def)
  have m: "make_potential lib self out alpha mi tol w
         = (Inr (), w\<lparr>files := (files w)(os_path_join out ''re_potential'' \<mapsto>
               concat (map (\<lambda>v. py_str lib v @ [CHR 0x0A]) c))\<rparr>)"
    by (simp add: make_potential_split fit_potential_plain [OF kind plain coef]
        write_potential_writable [OF can_write])
  then show ?thesis
    by (simp add: potential_lines_def count_lines_concat [OF str] lines)
qed

theorem make_potential_writes_one_line_per_column_witness:
  "make_potential example_library example_trainer ''out'' 1 1000000 (1 / 10000)
     example_world_loaded
   = (Inr (), example_world_loaded\<lparr>files :=
        (files example_world_loaded)(''out/re_potential'' \<mapsto>
           concat (map (\<lambda>v. py_str example_library v @ [CHR 0x0A]) [0, 2, 2]))\<rparr>)
   \<and> potential_lines
        (snd (make_potential example_library example_trainer ''out'' 1 1000000 (1 / 10000)
                example_world_loaded)) ''out'' = Some 3"
proof -
  have kind: "f example_trainer = Some Ridge" and plain: "\<not> truthy (norm_kind example_trainer)"
    by (simp_all add: example_trainer_def truthy_def)
  have can_write: "writable example_world_loaded (os_path_join ''out'' ''re_potential'')"
    by (simp add: example_world_loaded_def example_world_def)
  have path: "os_path_join ''out'' ''re_potential'' = ''out/re_potential''"
    by (simp add: os_path_join_def)
  have columns: "length [0, 2, 2 :: real]
      = column_count (arrays example_world_loaded ! training_x example_trainer)"
    and atoms: "1 \<le> column_count (arrays example_world_loaded ! training_x example_trainer)"
    by (simp_all add: column_count_def example_world_loaded_def example_trainer_def
        example_X_def)
  note inst = make_potential_writes_one_line_per_column
         [OF kind plain example_coef columns atoms can_write example_str_line]
  have three: "1 + descriptor_count (arrays example_world_loaded ! training_x example_trainer)
      = 3"
    by (simp add: descriptor_count_def column_count_def example_world_loaded_def
        example_trainer_def example_X_def)
  from inst [THEN conjunct1]
  have "make_potential example_library example_trainer ''out'' 1 1000000 (1 / 10000)
     example_world_loaded
   = (Inr (), example_world_loaded\<lparr>files :=
        (files example_world_loaded)(''out/re_potential'' \<mapsto>
           concat (map (\<lambda>v. py_str example_library v @ [CHR 0x0A]) [0, 2, 2]))\<rparr>)"
    unfolding path .
  moreover from inst [THEN conjunct2]
  have "potential_lines
        (snd (make_potential example_library example_trainer ''out'' 1 1000000 (1 / 10000)
                example_world_loaded)) ''out'' = Some 3"
    unfolding three .
  ultimately show ?thesis by (rule conjI)
qed

text \<open>
  Claim C1, as it is written, asks for \<open>D\<close> lines. On the example the matrix has the atom
  count and \<open>D = 2\<close> descriptors, and the file has three lines.
\<close>

theorem potential_file_lines_counterexample:
  "descriptor_count example_X = 2
   \<and> potential_lines
        (snd (make_potential example_library example_trainer ''out'' 1 1000000 (1 / 10000)
                example_world_loaded)) ''out'' = Some 3
   \<and> potential_lines
        (snd (make_potential example_library example_trainer ''out'' 1 1000000 (1 / 10000)
                example_world_loaded)) ''out'' \<noteq> Some (descriptor_count example_X)"
proof -
  have "descriptor_count example_X = 2"
    by (simp add: descriptor_count_def column_count_def example_X_def)
  moreover have "potential_lines
        (snd (make_potential example_library example_trainer ''out'' 1 1000000 (1 / 10000)
                example_world_loaded)) ''out'' = Some 3"
    by (simp add: example_make_potential potential_lines_def os_path_join_def count_lines_def)
  ultimately show ?thesis by simp
qed

text \<open>
  Claim C3 says that a trainer built with a norm divides the coefficients by the stored
  scales and completes. The code fits all \<open>1 + D\<close> columns of \<open>X\<close>, so a solver whose
  \<^verbatim>\<open>coef_\<close> has two axes, its first row holding one coefficient per column of the
  matrix it is given, yields \<open>1 + D\<close> of them,
  but construction has stored \<open>D\<close> scales, one per descriptor column. For \<open>D \<ge> 2\<close> the
  division \<^verbatim>\<open>potential / self.norms\<close> cannot be broadcast: \<open>make_potential\<close> ends in
  that exception, unchecked by the code itself, and writes nothing.
\<close>

theorem normalized_make_potential_raises:
  assumes kind: "f self = Some kind"
      and normed: "truthy (norm_kind self)"
      and scales: "norms self = Some s"
      and coef: "sk_coef lib (sk_fit_mat lib kind alpha mi tol False
                   (arrays w ! training_x self) (arrays w ! training_y self))
                 = Coef_2d (c # rest)"
      and columns: "length c = column_count (arrays w ! training_x self)"
      and scale_count: "length s = descriptor_count (arrays w ! training_x self)"
      and two: "2 \<le> descriptor_count (arrays w ! training_x self)"
  shows "make_potential lib self out alpha mi tol w = (Inl Broadcast, w)"
proof -
  from columns scale_count two
  have "length c \<noteq> length s" "length c \<noteq> 1" "length s \<noteq> 1"
    unfolding descriptor_count_def by linarith+
  then have "np_binop (/) c s = Inl Broadcast"
    by (rule np_binop_clash)
  then have "np_divide (Row c) s = Inl Broadcast"
    by (simp add: np_divide_def)
  then show ?thesis
    by (simp add: make_potential_split fit_potential_normalized [OF kind normed scales coef])
qed

theorem normalized_make_potential_raises_witness:
  "make_potential example_library example_trainer_l1 ''out'' 1 1000000 (1 / 10000)
     example_world_l1 = (Inl Broadcast, example_world_l1)"
proof -
  have kind: "f example_trainer_l1 = Some Ridge"
    and normed: "truthy (norm_kind example_trainer_l1)"
    and scales: "norms example_trainer_l1 = Some [9, 7]"
    by (simp_all add: example_trainer_l1_def truthy_def)
  have coef: "sk_coef example_library (sk_fit_mat example_library Ridge 1 1000000 (1 / 10000)
      False (arrays example_world_l1 ! training_x example_trainer_l1)
      (arrays example_world_l1 ! training_y example_trainer_l1)) = Coef_2d ([0, 2, 2] # [])"
    by (simp add: example_library_def example_coef_of_def example_fit_def
        example_world_l1_def example_trainer_l1_def example_X_l1_def)
  have columns: "length [0, 2, 2 :: real]
      = column_count (arrays example_world_l1 ! training_x example_trainer_l1)"
    and scale_count: "length [9, 7 :: real]
      = descriptor_count (arrays example_world_l1 ! training_x example_trainer_l1)"
    and two: "2 \<le> descriptor_count (arrays example_world_l1 ! training_x example_trainer_l1)"
    by (simp_all add: descriptor_count_def column_count_def example_world_l1_def
        example_trainer_l1_def example_X_l1_def)
  show ?thesis
    by (rule normalized_make_potential_raises
          [OF kind normed scales coef columns scale_count two])
qed

text \<open>
  Claim C10. \<open>cross_validation\<close> works on a copy: whatever its arguments and its outcome,
  the three arrays the trainer refers to hold after the call what they held before, so
  a \<open>make_potential\<close> that follows fits the same coefficients, ends the same way and
  leaves the same files as one that had run before it.
\<close>

theorem cross_validation_keeps_stored_arrays:
  assumes x: "training_x self < length (arrays w)"
      and y: "training_y self < length (arrays w)"
      and d: "training_data self < length (arrays w)"
  shows "arrays (snd (cross_validation lib self alphas mi tol pim seed w)) ! training_x self
         = arrays w ! training_x self
       \<and> arrays (snd (cross_validation lib self alphas mi tol pim seed w)) ! training_y self
         = arrays w ! training_y self
       \<and> arrays (snd (cross_validation lib self alphas mi tol pim seed w)) ! training_data self
         = arrays w ! training_data self
       \<and> fst (fit_potential lib self alpha mi' tol'
                (snd (cross_validation lib self alphas mi tol pim seed w)))
         = fst (fit_potential lib self alpha mi' tol' w)
       \<and> fst (make_potential lib self out alpha mi' tol'
                (snd (cross_validation lib self alphas mi tol pim seed w)))
         = fst (make_potential lib self out alpha mi' tol' w)
       \<and> files (snd (make_potential lib self out alpha mi' tol'
                (snd (cross_validation lib self alphas mi tol pim seed w))))
         = files (snd (make_potential lib self out alpha mi' tol' w))"
proof -
  let ?w = "snd (cross_validation lib self alphas mi tol pim seed w)"
  have ax: "arrays ?w ! training_x self = arrays w ! training_x self"
    and ay: "arrays ?w ! training_y self = arrays w ! training_y self"
    and ad: "arrays ?w ! training_data self = arrays w ! training_data self"
    by (rule cross_validation_frame(1) [OF x], rule cross_validation_frame(1) [OF y],
        rule cross_validation_frame(1) [OF d])
  have fl: "files ?w = files w" and wr: "writable ?w = writable w"
    by (rule cross_validation_frame(2) [OF x], rule cross_validation_frame(3) [OF x])
  have fit: "fst (fit_potential lib self alpha mi' tol' ?w)
             = fst (fit_potential lib self alpha mi' tol' w)"
    by (rule fit_potential_reads [OF ax ay])
  have "fst (make_potential lib self out alpha mi' tol' ?w)
        = fst (make_potential lib self out alpha mi' tol' w)
      \<and> files (snd (make_potential lib self out alpha mi' tol' ?w))
        = files (snd (make_potential lib self out alpha mi' tol' w))"
  proof (cases "fst (fit_potential lib self alpha mi' tol' w)")
    case (Inl e)
    with fit fl show ?thesis
      by (simp add: make_potential_split)
  next
    case (Inr p)
    with fit write_potential_same [OF fl wr, of lib out p] show ?thesis
      by (simp add: make_potential_split)
  qed
  with ax ay ad fit show ?thesis by simp
qed

theorem cross_validation_keeps_stored_arrays_witness:
  "arrays (snd (cross_validation example_library example_trainer [0, 1] 1000000 (1 / 10000)
                  None 2020 example_world_loaded)) ! training_x example_trainer = example_X
   \<and> arrays (snd (cross_validation example_library example_trainer [0, 1] 1000000 (1 / 10000)
                  None 2020 example_world_loaded)) ! training_y example_trainer = example_y
   \<and> arrays (snd (cross_validation example_library example_trainer [0, 1] 1000000 (1 / 10000)
                  None 2020 example_world_loaded)) ! training_data example_trainer
     = example_table
   \<and> fst (fit_potential example_library example_trainer 1 1000000 (1 / 10000)
            (snd (cross_validation example_library example_trainer [0, 1] 1000000 (1 / 10000)
                    None 2020 example_world_loaded)))
     = Inr (Row [0, 2, 2])"
proof -
  have x: "training_x example_trainer < length (arrays example_world_loaded)"
    and y: "training_y example_trainer < length (arrays example_world_loaded)"
    and d: "training_data example_trainer < length (arrays example_world_loaded)"
    by (simp_all add: example_trainer_def example_world_loaded_def)
  note inst = cross_validation_keeps_stored_arrays
      [OF x y d, of example_library "[0, 1]" 1000000 "1 / 10000" None 2020 1 1000000
         "1 / 10000" "''out''"]
  have kind: "f example_trainer = Some Ridge" and plain: "\<not> truthy (norm_kind example_trainer)"
    by (simp_all add: example_trainer_def truthy_def)
  have before: "arrays example_world_loaded ! training_x example_trainer = example_X"
    "arrays example_world_loaded ! training_y example_trainer = example_y"
    "arrays example_world_loaded ! training_data example_trainer = example_table"
    by (simp_all add: example_trainer_def example_world_loaded_def)
  have fit: "fst (fit_potential example_library example_trainer 1 1000000 (1 / 10000)
            example_world_loaded) = Inr (Row [0, 2, 2])"
    by (simp add: fit_potential_plain [OF kind plain example_coef])
  from inst show ?thesis
    unfolding before fit by simp
qed

section \<open>The claims about construction\<close>

lemma init_kind_only_sets_f:
  "init lib dir kind nm w =
     (case init lib dir kind' nm w of
        (Inl e, w') \<Rightarrow> (Inl e, w')
      | (Inr t, w') \<Rightarrow> (Inr (t\<lparr>f := MODELS kind\<rparr>), w'))"
  unfolding init_def
  by (simp add: andthen_def lift_def ok_def np_new_def array_at_def np_assign_cols_from_def
      np_concatenate_axis1_def split: sum.split prod.split option.split)

lemma fold_step_not_callable:
  assumes "f self = None"
  shows "emits (fold_step lib self d (np_cols_from d 1) (map (\<lambda>r. r ! 0) d)
                  (map (\<lambda>r. r ! 1) d) alpha mi tol pim i acc) (Inl NotCallable) []"
  unfolding fold_step_def emits_def
  by (simp add: np_take_data_x np_take_data_y np_take_num_array assms lift_def
      del: One_nat_def)

lemma alpha_step_not_callable:
  assumes "f self = None"
  shows "emits (alpha_step lib self d (np_cols_from d 1) (map (\<lambda>r. r ! 0) d)
                  (map (\<lambda>r. r ! 1) d) mi tol pim alpha errs) (Inl NotCallable) []"
proof -
  have "py_range 5 = 0 # [1..<5]"
    by (simp add: py_range_def upt_rec)
  then have "emits (for_each (py_range 5) ([], [])
               (fold_step lib self d (np_cols_from d 1) (map (\<lambda>r. r ! 0) d)
                  (map (\<lambda>r. r ! 1) d) alpha mi tol pim)) (Inl NotCallable) []"
    by (simp add: emits_andthen_Inl [OF fold_step_not_callable [OF assms]] del: One_nat_def)
  then show ?thesis
    unfolding alpha_step_def by (rule emits_andthen_Inl)
qed

lemma alpha_sweep_not_callable:
  assumes "f self = None" and "alphas \<noteq> []" and cols: "list_all (\<lambda>r. 2 \<le> length r) d"
  shows "emits (alpha_sweep lib self d alphas mi tol pim) (Inl NotCallable) []"
proof -
  from assms(2) obtain a rest where alphas: "alphas = a # rest"
    by (cases alphas) auto
  have "emits (for_each alphas []
          (alpha_step lib self d (np_cols_from d 1) (map (\<lambda>r. r ! 0) d)
             (map (\<lambda>r. r ! 1) d) mi tol pim)) (Inl NotCallable) []"
    unfolding alphas
    by (simp add: emits_andthen_Inl [OF alpha_step_not_callable [OF assms(1)]]
        del: One_nat_def)
  then have "emits (andthen (for_each alphas []
          (alpha_step lib self d (np_cols_from d 1) (map (\<lambda>r. r ! 0) d)
             (map (\<lambda>r. r ! 1) d) mi tol pim))
       (\<lambda>alpha_errors.
         andthen (lift (py_max alpha_errors)) (\<lambda>max_e.
         andthen (lift (py_min alpha_errors)) (\<lambda>min_e.
         andthen (plot_cross alphas alpha_errors
                    (min_e - (max_e - min_e)) (max_e + (max_e - min_e))) (\<lambda>_.
         ok alpha_errors))))) (Inl NotCallable) []"
    by (rule emits_andthen_Inl)
  then show ?thesis
    unfolding alpha_sweep_def
    by (simp add: np_col_table [OF cols] del: One_nat_def)
qed

lemma fit_potential_not_callable:
  "f self = None \<Longrightarrow> fit_potential lib self alpha mi tol w = (Inl NotCallable, w)"
  by (simp add: fit_potential_def lift_def)

lemma assign_rows_scaled:
  assumes "list_all (\<lambda>r. length r = Suc D) x" and "length s = D"
  shows "assign_rows 1 x (map (\<lambda>r. map2 (/) r s) (np_cols_from x 1))
         = Inr (map (\<lambda>r. take 1 r @ map2 (/) (drop 1 r) s) x)"
  using assms
proof (induction x)
  case Nil
  show ?case by (simp add: np_cols_from_def)
next
  case (Cons r x)
  then have "length (map2 (/) (drop 1 r) s) = length r - 1"
    by simp
  then have "broadcast_to (length r - 1) (map2 (/) (drop 1 r) s) = Inr (map2 (/) (drop 1 r) s)"
    by (simp only: broadcast_to_def refl if_True)
  with Cons show ?case
    by (simp add: np_cols_from_def del: One_nat_def)
qed

lemma init_normalized:
  assumes load: "io_loadmat lib dir = Inr data"
      and X: "data ''X'' = Some x" and Y: "data ''y'' = Some y"
      and rows: "length y = length x"
      and width: "list_all (\<lambda>r. length r = Suc D) x"
      and normed: "truthy nm"
      and scaled: "sk_normalize lib (the nm) (np_cols_from x 1)
                   = Inr (map (\<lambda>r. map2 (/) r s) (np_cols_from x 1), s)"
      and scales: "length s = D"
  shows "init lib dir kind nm w =
           (Inr \<lparr>data_dir = dir, f = MODELS kind, norm_kind = nm, norms = Some s,
                 training_x = length (arrays w), training_y = Suc (length (arrays w)),
                 training_data = Suc (Suc (length (arrays w)))\<rparr>,
            w\<lparr>arrays := arrays w @
                [map (\<lambda>r. take 1 r @ map2 (/) (drop 1 r) s) x, y,
                 map2 (@) y (map (\<lambda>r. take 1 r @ map2 (/) (drop 1 r) s) x)]\<rparr>)"
proof -
  have b: "broadcast_to (length x) (map (\<lambda>r. map2 (/) r s) (np_cols_from x 1))
        = Inr (map (\<lambda>r. map2 (/) r s) (np_cols_from x 1))"
    by (simp add: broadcast_to_def np_cols_from_def)
  show ?thesis
    unfolding init_def
    by (simp add: load X Y rows normed scaled py_getitem_def andthen_def np_new_def
        array_at_def np_assign_cols_from_def b assign_rows_scaled [OF width scales]
        np_concatenate_axis1_def ok_def lift_def nth_append del: One_nat_def)
qed

lemma init_plain:
  assumes load: "io_loadmat lib dir = Inr data"
      and X: "data ''X'' = Some x" and Y: "data ''y'' = Some y"
      and rows: "length y = length x"
      and plain: "\<not> truthy nm"
  shows "init lib dir kind nm w =
           (Inr \<lparr>data_dir = dir, f = MODELS kind, norm_kind = nm, norms = None,
                 training_x = length (arrays w), training_y = Suc (length (arrays w)),
                 training_data = Suc (Suc (length (arrays w)))\<rparr>,
            w\<lparr>arrays := arrays w @ [x, y, map2 (@) y x]\<rparr>)"
  unfolding init_def
  by (simp add: load X Y rows plain py_getitem_def andthen_def np_new_def
      np_concatenate_axis1_def ok_def lift_def nth_append del: One_nat_def)

lemma example_load:
  "io_loadmat example_library ''re.mat'' = Inr [''X'' \<mapsto> example_X, ''y'' \<mapsto> example_y]"
  "[''X'' \<mapsto> example_X, ''y'' \<mapsto> example_y] ''X'' = Some example_X"
  "[''X'' \<mapsto> example_X, ''y'' \<mapsto> example_y] ''y'' = Some example_y"
  "length example_y = length example_X"
  "list_all (\<lambda>r. length r = Suc 2) example_X"
  "example_X \<noteq> []"
  by (simp_all add: example_library_def example_X_def example_y_def)

lemma example_scaled:
  "sk_normalize example_library ''l1'' (np_cols_from example_X 1)
   = Inr (map (\<lambda>r. map2 (/) r [9, 7]) (np_cols_from example_X 1), [9, 7])"
  by (simp add: example_library_def example_normalize_def np_cols_from_def example_X_def
      column_scale_def column_norm_def)

lemma example_init:
  "init example_library ''re.mat'' ''RIDGE'' None example_world
   = (Inr example_trainer, example_world_loaded)"
proof -
  have "\<not> truthy None" by (simp add: truthy_def)
  from init_plain [OF example_load(1-4) this, of "''RIDGE''" example_world]
  show ?thesis
    by (simp add: example_trainer_def example_world_loaded_def example_world_def MODELS_def
        example_table_def example_X_def example_y_def)
qed

lemma example_init_l1:
  "init example_library ''re.mat'' ''RIDGE'' (Some ''l1'') example_world
   = (Inr example_trainer_l1, example_world_l1)"
proof -
  have "truthy (Some ''l1'')" by (simp add: truthy_def)
  moreover have "sk_normalize example_library (the (Some ''l1'')) (np_cols_from example_X 1)
   = Inr (map (\<lambda>r. map2 (/) r [9, 7]) (np_cols_from example_X 1), [9, 7])"
    using example_scaled by simp
  moreover have "length [9, 7 :: real] = 2" by simp
  ultimately have "init example_library ''re.mat'' ''RIDGE'' (Some ''l1'') example_world =
           (Inr \<lparr>data_dir = ''re.mat'', f = MODELS ''RIDGE'', norm_kind = Some ''l1'',
                 norms = Some [9, 7],
                 training_x = length (arrays example_world),
                 training_y = Suc (length (arrays example_world)),
                 training_data = Suc (Suc (length (arrays example_world)))\<rparr>,
            example_world\<lparr>arrays := arrays example_world @
                [map (\<lambda>r. take 1 r @ map2 (/) (drop 1 r) [9, 7]) example_X, example_y,
                 map2 (@) example_y
                   (map (\<lambda>r. take 1 r @ map2 (/) (drop 1 r) [9, 7]) example_X)]\<rparr>)"
    by (rule init_normalized [OF example_load(1-5)])
  then show ?thesis
    by (simp add: example_trainer_l1_def example_world_l1_def example_world_def MODELS_def
        example_table_l1_def example_X_l1_def example_X_def example_y_def)
qed

text \<open>
  Claim C9. Let \<open>X\<close> be \<open>N \<times> (1 + D)\<close> with \<open>N \<ge> 1\<close>. With a norm, where the library's
  \<open>normalize\<close> answers, for the matrix it is given, one scale per column and the entries
  divided by the scale of their column, construction leaves column 0 of \<open>X\<close> as it was,
  replaces every entry of the columns \<open>1, ..., D\<close> by its quotient by the scale of its
  column, and keeps exactly \<open>D\<close> scales. Without a norm (\<^verbatim>\<open>None\<close>, or the empty
  string) \<open>X\<close> is unchanged and no scales are kept.
\<close>

theorem init_normalization:
  assumes load: "io_loadmat lib dir = Inr data"
      and X: "data ''X'' = Some x" and Y: "data ''y'' = Some y"
      and rows: "length y = length x"
      and width: "list_all (\<lambda>r. length r = Suc D) x"
      and some: "x \<noteq> []"
  shows "(truthy nm
          \<and> sk_normalize lib (the nm) (np_cols_from x 1)
            = Inr (map (\<lambda>r. map2 (/) r s) (np_cols_from x 1), s)
          \<and> length s = column_count (np_cols_from x 1)
          \<longrightarrow> (\<exists>t w'. init lib dir kind nm w = (Inr t, w')
                \<and> norms t = Some s \<and> length s = D
                \<and> length (arrays w' ! training_x t) = length x
                \<and> (\<forall>i<length x.
                      length (arrays w' ! training_x t ! i) = Suc D
                      \<and> arrays w' ! training_x t ! i ! 0 = x ! i ! 0
                      \<and> (\<forall>j<D. arrays w' ! training_x t ! i ! Suc j = x ! i ! Suc j / s ! j))))
       \<and> (\<not> truthy nm
          \<longrightarrow> (\<exists>t w'. init lib dir kind nm w = (Inr t, w')
                \<and> norms t = None \<and> arrays w' ! training_x t = x))"
proof (intro conjI impI)
  assume a: "truthy nm
          \<and> sk_normalize lib (the nm) (np_cols_from x 1)
            = Inr (map (\<lambda>r. map2 (/) r s) (np_cols_from x 1), s)
          \<and> length s = column_count (np_cols_from x 1)"
  from some width have "column_count (np_cols_from x 1) = D"
    by (cases x) (simp_all add: column_count_def np_cols_from_def)
  with a have scales: "length s = D" by simp
  let ?x = "map (\<lambda>r. take 1 r @ map2 (/) (drop 1 r) s) x"
  let ?t = "\<lparr>data_dir = dir, f = MODELS kind, norm_kind = nm, norms = Some s,
              training_x = length (arrays w), training_y = Suc (length (arrays w)),
              training_data = Suc (Suc (length (arrays w)))\<rparr>"
  let ?w = "w\<lparr>arrays := arrays w @ [?x, y, map2 (@) y ?x]\<rparr>"
  from a scales have i: "init lib dir kind nm w = (Inr ?t, ?w)"
    by (intro init_normalized [OF load X Y rows width]) simp_all
  have at: "arrays ?w ! training_x ?t = ?x"
    by (simp add: nth_append)
  have row: "length (?x ! i) = Suc D \<and> ?x ! i ! 0 = x ! i ! 0
      \<and> (\<forall>j<D. ?x ! i ! Suc j = x ! i ! Suc j / s ! j)" if "i < length x" for i
  proof -
    from width that have l: "length (x ! i) = Suc D"
      by (simp add: list_all_length)
    then obtain c r where r: "x ! i = c # r" "length r = D"
      by (cases "x ! i") auto
    with scales that show ?thesis by simp
  qed
  show "\<exists>t w'. init lib dir kind nm w = (Inr t, w')
                \<and> norms t = Some s \<and> length s = D
                \<and> length (arrays w' ! training_x t) = length x
                \<and> (\<forall>i<length x.
                      length (arrays w' ! training_x t ! i) = Suc D
                      \<and> arrays w' ! training_x t ! i ! 0 = x ! i ! 0
                      \<and> (\<forall>j<D. arrays w' ! training_x t ! i ! Suc j = x ! i ! Suc j / s ! j))"
  proof (intro exI conjI)
    show "init lib dir kind nm w = (Inr ?t, ?w)" by (rule i)
    show "norms ?t = Some s" by simp
    show "length s = D" by (rule scales)
    show "length (arrays ?w ! training_x ?t) = length x"
      unfolding at by simp
    show "\<forall>i<length x.
            length (arrays ?w ! training_x ?t ! i) = Suc D
            \<and> arrays ?w ! training_x ?t ! i ! 0 = x ! i ! 0
            \<and> (\<forall>j<D. arrays ?w ! training_x ?t ! i ! Suc j = x ! i ! Suc j / s ! j)"
      unfolding at using row by blast
  qed
next
  assume "\<not> truthy nm"
  then have "init lib dir kind nm w =
           (Inr \<lparr>data_dir = dir, f = MODELS kind, norm_kind = nm, norms = None,
                 training_x = length (arrays w), training_y = Suc (length (arrays w)),
                 training_data = Suc (Suc (length (arrays w)))\<rparr>,
            w\<lparr>arrays := arrays w @ [x, y, map2 (@) y x]\<rparr>)"
    by (rule init_plain [OF load X Y rows])
  then show "\<exists>t w'. init lib dir kind nm w = (Inr t, w')
                \<and> norms t = None \<and> arrays w' ! training_x t = x"
    by (simp add: nth_append)
qed

theorem init_normalization_witness:
  "(\<exists>t w'. init example_library ''re.mat'' ''RIDGE'' (Some ''l1'') example_world = (Inr t, w')
       \<and> norms t = Some [9, 7]
       \<and> arrays w' ! training_x t ! 2 ! 0 = example_X ! 2 ! 0
       \<and> arrays w' ! training_x t ! 2 ! Suc 0 = example_X ! 2 ! Suc 0 / [9, 7] ! 0
       \<and> arrays w' ! training_x t ! 2 ! Suc 1 = example_X ! 2 ! Suc 1 / [9, 7] ! 1)
   \<and> (\<exists>t w'. init example_library ''re.mat'' ''RIDGE'' None example_world = (Inr t, w')
       \<and> norms t = None \<and> arrays w' ! training_x t = example_X)"
proof -
  note inst = init_normalization [OF example_load, of _ "[9, 7]" "''RIDGE''" example_world]
  have hyp: "truthy (Some ''l1'')
          \<and> sk_normalize example_library (the (Some ''l1'')) (np_cols_from example_X 1)
            = Inr (map (\<lambda>r. map2 (/) r [9, 7]) (np_cols_from example_X 1), [9, 7])
          \<and> length [9, 7 :: real] = column_count (np_cols_from example_X 1)"
    using example_scaled
    by (simp add: truthy_def column_count_def np_cols_from_def example_X_def)
  from inst [of "Some ''l1''", THEN conjunct1, rule_format, OF hyp]
  obtain t w' where
    i: "init example_library ''re.mat'' ''RIDGE'' (Some ''l1'') example_world = (Inr t, w')"
    and n: "norms t = Some [9, 7]"
    and r: "\<forall>i<length example_X.
              length (arrays w' ! training_x t ! i) = Suc 2
              \<and> arrays w' ! training_x t ! i ! 0 = example_X ! i ! 0
              \<and> (\<forall>j<2. arrays w' ! training_x t ! i ! Suc j
                         = example_X ! i ! Suc j / [9, 7] ! j)"
    by blast
  have "(2::nat) < length example_X"
    by (simp add: example_X_def)
  with r have r2: "arrays w' ! training_x t ! 2 ! 0 = example_X ! 2 ! 0"
    "\<forall>j<2. arrays w' ! training_x t ! 2 ! Suc j = example_X ! 2 ! Suc j / [9, 7] ! j"
    by blast+
  have "(0::nat) < 2" "(1::nat) < 2" by simp_all
  with r2(2) have "arrays w' ! training_x t ! 2 ! Suc 0 = example_X ! 2 ! Suc 0 / [9, 7] ! 0"
    "arrays w' ! training_x t ! 2 ! Suc 1 = example_X ! 2 ! Suc 1 / [9, 7] ! 1"
    by blast+
  with i n r2(1) have first:
    "\<exists>t w'. init example_library ''re.mat'' ''RIDGE'' (Some ''l1'') example_world = (Inr t, w')
       \<and> norms t = Some [9, 7]
       \<and> arrays w' ! training_x t ! 2 ! 0 = example_X ! 2 ! 0
       \<and> arrays w' ! training_x t ! 2 ! Suc 0 = example_X ! 2 ! Suc 0 / [9, 7] ! 0
       \<and> arrays w' ! training_x t ! 2 ! Suc 1 = example_X ! 2 ! Suc 1 / [9, 7] ! 1"
    by blast
  have "\<not> truthy None" by (simp add: truthy_def)
  from inst [of None, THEN conjunct2, rule_format, OF this]
  have "\<exists>t w'. init example_library ''re.mat'' ''RIDGE'' None example_world = (Inr t, w')
       \<and> norms t = None \<and> arrays w' ! training_x t = example_X" .
  with first show ?thesis by (rule conjI)
qed

text \<open>
  Claim C8. A model kind outside LASSO and RIDGE does not make construction fail:
  wherever construction with RIDGE succeeds, construction with the unknown kind succeeds
  in the same world, with the same trainer but for the constructor, which is \<^verbatim>\<open>None\<close>.
  The failure comes when a fitting routine calls it: at once in \<open>make_potential\<close>, and in
  \<open>cross_validation\<close> at the first fold of the first alpha (so for a non-empty sequence of
  alphas, an accepted seed and a working table with its two columns).
\<close>

theorem unknown_model_kind_fails_late:
  assumes unknown: "MODELS kind = None"
      and built: "init (lib :: ('m, 'g) library) dir ''RIDGE'' nm w = (Inr t, w1)"
  shows "init lib dir kind nm w = (Inr (t\<lparr>f := None\<rparr>), w1)
       \<and> (\<forall>out alpha mi tol w2.
             make_potential lib (t\<lparr>f := None\<rparr>) out alpha mi tol w2 = (Inl NotCallable, w2))
       \<and> (\<forall>alphas mi tol pim seed w2 d.
             alphas \<noteq> [] \<and> working_table lib (t\<lparr>f := None\<rparr>) seed w2 = Inr d
               \<and> list_all (\<lambda>r. 2 \<le> length r) d
             \<longrightarrow> fst (cross_validation lib (t\<lparr>f := None\<rparr>) alphas mi tol pim seed w2)
                 = Inl NotCallable)"
proof (intro conjI allI impI)
  show "init lib dir kind nm w = (Inr (t\<lparr>f := None\<rparr>), w1)"
    by (simp add: init_kind_only_sets_f [of lib dir kind nm w "''RIDGE''"] built unknown)
next
  fix out :: string and alpha mi tol :: real and w2 :: "'g world"
  show "make_potential lib (t\<lparr>f := None\<rparr>) out alpha mi tol w2 = (Inl NotCallable, w2)"
    by (simp add: make_potential_split fit_potential_not_callable)
next
  fix alphas :: vec and mi tol :: real and pim :: "string option" and seed :: int
    and d :: matrix and w2 :: "'g world"
  assume a: "alphas \<noteq> [] \<and> working_table lib (t\<lparr>f := None\<rparr>) seed w2 = Inr d
               \<and> list_all (\<lambda>r. 2 \<le> length r) d"
  then obtain w' where "cross_validation lib (t\<lparr>f := None\<rparr>) alphas mi tol pim seed w2
               = alpha_sweep lib (t\<lparr>f := None\<rparr>) d alphas mi tol pim w'"
    using cross_validation_on_table by blast
  moreover from a have "emits (alpha_sweep lib (t\<lparr>f := None\<rparr>) d alphas mi tol pim)
      (Inl NotCallable) []"
    by (intro alpha_sweep_not_callable) simp_all
  ultimately show "fst (cross_validation lib (t\<lparr>f := None\<rparr>) alphas mi tol pim seed w2)
                 = Inl NotCallable"
    by (simp add: emits_fst)
qed

theorem unknown_model_kind_fails_late_witness:
  "init example_library ''re.mat'' ''FOO'' None example_world
     = (Inr (example_trainer\<lparr>f := None\<rparr>), example_world_loaded)
   \<and> make_potential example_library (example_trainer\<lparr>f := None\<rparr>) ''out'' 1 1000000 (1 / 10000)
       example_world_loaded = (Inl NotCallable, example_world_loaded)
   \<and> fst (cross_validation example_library (example_trainer\<lparr>f := None\<rparr>) [0, 1] 1000000
            (1 / 10000) None 2020 example_world_loaded) = Inl NotCallable"
proof -
  have unknown: "MODELS ''FOO'' = None"
    by (simp add: MODELS_def)
  note inst = unknown_model_kind_fails_late [OF unknown example_init]
  have table: "working_table example_library (example_trainer\<lparr>f := None\<rparr>) 2020
      example_world_loaded = Inr (rev example_table)"
    by (simp add: working_table_eq example_library_def example_seed_def example_trainer_def
        example_world_loaded_def example_world_def)
  have hyp: "[0, 1 :: real] \<noteq> []
      \<and> working_table example_library (example_trainer\<lparr>f := None\<rparr>) 2020
          example_world_loaded = Inr (rev example_table)
      \<and> list_all (\<lambda>r. 2 \<le> length r) (rev example_table)"
    using table example_cols by simp
  from inst [THEN conjunct1]
    inst [THEN conjunct2, THEN conjunct1, rule_format,
          of "''out''" 1 1000000 "1 / 10000" example_world_loaded]
    inst [THEN conjunct2, THEN conjunct2, rule_format, OF hyp, of 1000000 "1 / 10000" None]
  show ?thesis by simp
qed

end
